theory Spec2Isabelle
  imports Complex_Main "HOL-Library.AList"
begin

section \<open>Python values\<close>

text \<open>
  The values that travel through \<open>metadata_extractor.py\<close>: \<open>None\<close>, booleans, integers,
  floats, text, byte strings, tuples, lists and dictionaries, and values of every other
  type (\<open>PObj\<close>: a \<open>Fraction\<close>, a complex number, the rational of the imaging library,
  any object). An object is known only through what the runtime does with it.

  A dictionary is an association list in insertion order, updated with
  \<open>AList.update\<close> (an existing key keeps its place, a new key goes to the end) and
  read with \<open>map_of\<close>. Its keys are tag names (text) or numeric tag ids: the mappings of
  the EXIF reader are keyed by numeric ids, and every other key of the program is a
  string literal or a name from a tag table.

  Floats stay abstract: the type parameter \<open>'f\<close> is the float type of the Python
  runtime. Text and byte strings are lists of 8-bit characters (text in UTF-8).
\<close>

datatype pykey = KStr string | KInt int

datatype 'f pyval =
    PNone
  | PBool bool
  | PInt int
  | PFloat 'f
  | PStr string
  | PBytes string
  | PTuple "'f pyval list"
  | PList "'f pyval list"
  | PDict "(pykey \<times> 'f pyval) list"
  | PObj nat

type_synonym 'f pydict = "(pykey \<times> 'f pyval) list"

text \<open>
  The exceptions of the modelled code, each with the operand that caused it: unary
  minus on a value that has none; \<open>float(v)\<close> on a value that cannot be converted; an
  attribute missing from a value (\<open>.keys()\<close> on something that is not a mapping); a
  subscript with a missing key; a binary operator on operands it does not accept; an
  integer too large for a float; unpacking a value that does not have exactly three
  parts; the substring test \<open>'GPS' in key\<close> on a numeric key; \<open>str(v)\<close> failing; the
  JSON encoder refusing a value; \<open>print\<close> failing on the console; an exception raised
  by a method of an object.
\<close>

datatype 'f failure =
    BadUnaryMinus "'f pyval"
  | BadFloat "'f pyval"
  | NoAttribute "'f pyval" string
  | KeyError pykey
  | BadOperands string "'f pyval" "'f pyval"
  | Overflow "'f pyval"
  | BadUnpack "'f pyval"
  | NotContainer pykey
  | StrFailed "'f pyval"
  | NotSerializable "'f pyval"
  | PrintFailed string
  | ObjectRaised nat string

text \<open>
  What the Python runtime supplies.
  \<^item> Floats: conversion of an integer (OverflowError on an integer that is too large,
    here \<open>None\<close>), the literals with an integral value (\<open>60.0\<close>, \<open>3600.0\<close>), addition,
    division, negation, parsing of text by \<open>float()\<close> (\<open>None\<close> where it raises) and
    \<open>repr\<close>, which never fails.
  \<^item> \<open>rt_str\<close>: \<open>str(v)\<close> for integers, byte strings, containers and objects. It can
    raise: CPython 3.11 refuses an integer of more than 4300 digits, and a nesting
    deeper than the recursion limit.
  \<^item> \<open>bytes.decode('utf-8', errors='ignore')\<close> (\<open>None\<close> where it raises), the nesting
    depth up to which \<open>json.dumps(value)\<close> and \<open>json.dump(record, f, indent=2)\<close> encode,
    and the message \<open>str(e)\<close> of an exception.
  \<^item> Objects: iteration, \<open>obj / float\<close>, \<open>a + b\<close> with an object on either side,
    \<open>float(obj)\<close>, \<open>-obj\<close>, \<open>obj == text\<close>, the items of an object that is a mapping, and
    whether the JSON encoder accepts the object.
\<close>

record 'f runtime =
  f_of_int :: "int \<Rightarrow> 'f option"
  f_lit :: "int \<Rightarrow> 'f"
  f_add :: "'f \<Rightarrow> 'f \<Rightarrow> 'f"
  f_div :: "'f \<Rightarrow> 'f \<Rightarrow> 'f"
  f_neg :: "'f \<Rightarrow> 'f"
  f_parse :: "string \<Rightarrow> 'f option"
  float_repr :: "'f \<Rightarrow> string"
  rt_str :: "'f pyval \<Rightarrow> 'f failure + string"
  decode_utf8_ignore :: "string \<Rightarrow> string option"
  dumps_max_depth :: nat
  dump_max_depth :: nat
  exc_str :: "'f failure \<Rightarrow> string"
  obj_iter :: "nat \<Rightarrow> 'f failure + 'f pyval list"
  obj_truediv :: "nat \<Rightarrow> 'f \<Rightarrow> 'f failure + 'f pyval"
  obj_add :: "'f pyval \<Rightarrow> 'f pyval \<Rightarrow> 'f failure + 'f pyval"
  obj_float :: "nat \<Rightarrow> 'f failure + 'f"
  obj_neg :: "nat \<Rightarrow> 'f failure + 'f pyval"
  obj_eq_str :: "nat \<Rightarrow> string \<Rightarrow> bool"
  obj_mapping :: "nat \<Rightarrow> 'f pydict option"
  obj_json_ok :: "nat \<Rightarrow> bool"

text \<open>
  \<open>str(v)\<close>, which is also what an f-string does with \<open>{v}\<close>: text is itself; \<open>None\<close>,
  booleans and floats always print; the rest is the runtime's and can raise.
\<close>

definition py_str :: "'f runtime \<Rightarrow> 'f pyval \<Rightarrow> 'f failure + string" where
  "py_str R v =
     (case v of
        PStr s \<Rightarrow> Inr s
      | PNone \<Rightarrow> Inr ''None''
      | PBool b \<Rightarrow> Inr (if b then ''True'' else ''False'')
      | PFloat x \<Rightarrow> Inr (float_repr R x)
      | _ \<Rightarrow> rt_str R v)"

text \<open>\<open>v == 'text'\<close>: true of equal text, the runtime's answer for an object, false otherwise.\<close>

definition py_eq_str :: "'f runtime \<Rightarrow> 'f pyval \<Rightarrow> string \<Rightarrow> bool" where
  "py_eq_str R v s =
     (case v of
        PStr t \<Rightarrow> t = s
      | PObj obj \<Rightarrow> obj_eq_str R obj s
      | _ \<Rightarrow> False)"

section \<open>\<open>convert_to_degrees\<close>\<close>

text \<open>
  \<open>d, m, s = value\<close> iterates the value: a tuple or list gives its elements, text its
  characters, a byte string its bytes as integers, a dictionary its keys, an object
  what its iterator gives; \<open>None\<close>, booleans and numbers are not iterable. The
  unpacking succeeds when there are exactly three items.
\<close>

definition pyval_of_key :: "pykey \<Rightarrow> 'f pyval" where
  "pyval_of_key k = (case k of KStr s \<Rightarrow> PStr s | KInt i \<Rightarrow> PInt i)"

fun py_iter :: "'f runtime \<Rightarrow> 'f pyval \<Rightarrow> 'f failure + 'f pyval list" where
  "py_iter R (PTuple xs) = Inr xs"
| "py_iter R (PList xs) = Inr xs"
| "py_iter R (PStr s) = Inr (map (\<lambda>c. PStr [c]) s)"
| "py_iter R (PBytes b) = Inr (map (\<lambda>c. PInt (of_char c)) b)"
| "py_iter R (PDict kvs) = Inr (map (\<lambda>kv. pyval_of_key (fst kv)) kvs)"
| "py_iter R (PObj obj) = obj_iter R obj"
| "py_iter R v = Inl (BadUnpack v)"

definition unpack3 ::
  "'f runtime \<Rightarrow> 'f pyval \<Rightarrow> 'f failure + ('f pyval \<times> 'f pyval \<times> 'f pyval)" where
  "unpack3 R v =
     (case py_iter R v of
        Inl e \<Rightarrow> Inl e
      | Inr [d, m, s] \<Rightarrow> Inr (d, m, s)
      | Inr _ \<Rightarrow> Inl (BadUnpack v))"

text \<open>
  A built-in number as a float operand: a float is itself, an integer or a boolean is
  converted (\<open>True\<close> is 1), with OverflowError on an integer that is too large.
\<close>

fun float_of_number :: "'f runtime \<Rightarrow> 'f pyval \<Rightarrow> ('f failure + 'f) option" where
  "float_of_number R (PFloat x) = Some (Inr x)"
| "float_of_number R (PInt i) =
     Some (case f_of_int R i of Some x \<Rightarrow> Inr x | None \<Rightarrow> Inl (Overflow (PInt i)))"
| "float_of_number R (PBool b) =
     Some (case f_of_int R (if b then 1 else 0) of Some x \<Rightarrow> Inr x | None \<Rightarrow> Inl (Overflow (PBool b)))"
| "float_of_number R v = None"

fun int_of_number :: "'f pyval \<Rightarrow> int option" where
  "int_of_number (PInt i) = Some i"
| "int_of_number (PBool b) = Some (if b then 1 else 0)"
| "int_of_number v = None"

text \<open>
  \<open>a / n.0\<close> for the float literals \<open>60.0\<close> and \<open>3600.0\<close>: float division for a built-in
  number, the object's own division for an object, TypeError for every other value.
\<close>

definition div_by_float_literal :: "'f runtime \<Rightarrow> 'f pyval \<Rightarrow> int \<Rightarrow> 'f failure + 'f pyval" where
  "div_by_float_literal R a n =
     (case a of
        PObj obj \<Rightarrow> obj_truediv R obj (f_lit R n)
      | _ \<Rightarrow>
          (case float_of_number R a of
             Some (Inr x) \<Rightarrow> Inr (PFloat (f_div R x (f_lit R n)))
           | Some (Inl e) \<Rightarrow> Inl e
           | None \<Rightarrow> Inl (BadOperands ''/'' a (PFloat (f_lit R n)))))"

text \<open>
  \<open>a + b\<close>: the object's answer when either side is an object; integer addition for
  two integers or booleans, float addition for two built-in numbers of which one is a
  float; concatenation of two texts, byte strings, tuples or lists; TypeError otherwise.
\<close>

definition is_obj :: "'f pyval \<Rightarrow> bool" where
  "is_obj v = (case v of PObj obj \<Rightarrow> True | _ \<Rightarrow> False)"

definition concat_values :: "'f pyval \<Rightarrow> 'f pyval \<Rightarrow> 'f failure + 'f pyval" where
  "concat_values a b =
     (case (a, b) of
        (PStr s, PStr t) \<Rightarrow> Inr (PStr (s @ t))
      | (PBytes s, PBytes t) \<Rightarrow> Inr (PBytes (s @ t))
      | (PTuple xs, PTuple ys) \<Rightarrow> Inr (PTuple (xs @ ys))
      | (PList xs, PList ys) \<Rightarrow> Inr (PList (xs @ ys))
      | _ \<Rightarrow> Inl (BadOperands ''+'' a b))"

definition py_add :: "'f runtime \<Rightarrow> 'f pyval \<Rightarrow> 'f pyval \<Rightarrow> 'f failure + 'f pyval" where
  "py_add R a b =
     (if is_obj a \<or> is_obj b then obj_add R a b
      else
        (case (int_of_number a, int_of_number b) of
           (Some i, Some j) \<Rightarrow> Inr (PInt (i + j))
         | _ \<Rightarrow>
             (case (float_of_number R a, float_of_number R b) of
                (Some x, Some y) \<Rightarrow>
                  (case x of
                     Inl e \<Rightarrow> Inl e
                   | Inr fx \<Rightarrow> (case y of Inl e \<Rightarrow> Inl e | Inr fy \<Rightarrow> Inr (PFloat (f_add R fx fy))))
              | _ \<Rightarrow> concat_values a b)))"

text \<open>
  The expression \<open>d + (m / 60.0) + (s / 3600.0)\<close>, in Python's order of evaluation:
  \<open>m / 60.0\<close>, then \<open>d + _\<close>, then \<open>s / 3600.0\<close>, then the outer sum. The first
  exception ends the evaluation.
\<close>

definition degrees_expr ::
  "'f runtime \<Rightarrow> 'f pyval \<Rightarrow> 'f pyval \<Rightarrow> 'f pyval \<Rightarrow> 'f failure + 'f pyval" where
  "degrees_expr R d m s =
     (case div_by_float_literal R m 60 of
        Inl e \<Rightarrow> Inl e
      | Inr t1 \<Rightarrow>
          (case py_add R d t1 of
             Inl e \<Rightarrow> Inl e
           | Inr t2 \<Rightarrow>
               (case div_by_float_literal R s 3600 of
                  Inl e \<Rightarrow> Inl e
                | Inr t3 \<Rightarrow> py_add R t2 t3)))"

text \<open>The body of the \<open>try\<close>.\<close>

definition degrees_body :: "'f runtime \<Rightarrow> 'f pyval \<Rightarrow> 'f failure + 'f pyval" where
  "degrees_body R v =
     (case unpack3 R v of
        Inl e \<Rightarrow> Inl e
      | Inr (d, m, s) \<Rightarrow> degrees_expr R d m s)"

text \<open>
  The bare \<open>except\<close> turns every exception of the body into \<open>str(value)\<close>. The call
  \<open>str(value)\<close> stands in the handler, so what it raises leaves the function.
\<close>

definition convert_to_degrees :: "'f runtime \<Rightarrow> 'f pyval \<Rightarrow> 'f failure + 'f pyval" where
  "convert_to_degrees R v =
     (case degrees_body R v of
        Inr x \<Rightarrow> Inr x
      | Inl e \<Rightarrow>
          (case py_str R v of
             Inr s \<Rightarrow> Inr (PStr s)
           | Inl e' \<Rightarrow> Inl e'))"

section \<open>\<open>extract_gps_info\<close>\<close>

text \<open>
  \<open>TAGS\<close> and \<open>GPSTAGS\<close> are tables of the imaging library, from numeric tag ids to
  names; they are parameters of the model. \<open>TABLE.get(key, key)\<close> gives the name of a
  known id and the key itself otherwise.
\<close>

type_synonym tag_table = "int \<Rightarrow> string option"

definition resolve_tag :: "tag_table \<Rightarrow> pykey \<Rightarrow> pykey" where
  "resolve_tag T key =
     (case key of
        KInt i \<Rightarrow> (case T i of Some name \<Rightarrow> KStr name | None \<Rightarrow> KInt i)
      | KStr s \<Rightarrow> KStr s)"

text \<open>\<open>d.get(key, default)\<close>, \<open>key in d\<close> and \<open>d.get(key) == 'text'\<close>.\<close>

definition dict_get :: "'f pydict \<Rightarrow> pykey \<Rightarrow> 'f pyval \<Rightarrow> 'f pyval" where
  "dict_get d key dflt = (case map_of d key of Some v \<Rightarrow> v | None \<Rightarrow> dflt)"

definition has_key :: "'f pydict \<Rightarrow> pykey \<Rightarrow> bool" where
  "has_key d key = (map_of d key \<noteq> None)"

definition ref_equals :: "'f runtime \<Rightarrow> 'f pydict \<Rightarrow> string \<Rightarrow> string \<Rightarrow> bool" where
  "ref_equals R d key s = py_eq_str R (dict_get d (KStr key) PNone) s"

text \<open>The items of a value that has \<open>.keys()\<close>: a dictionary, or an object that is a mapping.\<close>

definition as_mapping :: "'f runtime \<Rightarrow> 'f pyval \<Rightarrow> 'f pydict option" where
  "as_mapping R v =
     (case v of
        PDict kvs \<Rightarrow> Some kvs
      | PObj obj \<Rightarrow> obj_mapping R obj
      | _ \<Rightarrow> None)"

text \<open>
  The built-in \<open>float(v)\<close>: numbers convert, text and byte strings are parsed, an object
  answers for itself, every other value raises.
\<close>

fun py_float :: "'f runtime \<Rightarrow> 'f pyval \<Rightarrow> 'f failure + 'f" where
  "py_float R (PFloat x) = Inr x"
| "py_float R (PInt i) = (case f_of_int R i of Some x \<Rightarrow> Inr x | None \<Rightarrow> Inl (BadFloat (PInt i)))"
| "py_float R (PBool b) =
     (case f_of_int R (if b then 1 else 0) of Some x \<Rightarrow> Inr x | None \<Rightarrow> Inl (BadFloat (PBool b)))"
| "py_float R (PStr s) = (case f_parse R s of Some x \<Rightarrow> Inr x | None \<Rightarrow> Inl (BadFloat (PStr s)))"
| "py_float R (PBytes b) = (case f_parse R b of Some x \<Rightarrow> Inr x | None \<Rightarrow> Inl (BadFloat (PBytes b)))"
| "py_float R (PObj obj) = obj_float R obj"
| "py_float R v = Inl (BadFloat v)"

text \<open>
  Unary minus: defined on the built-in numbers (\<open>-True\<close> is the integer \<open>-1\<close>), the
  object's own for an object, TypeError for every other value.
\<close>

fun py_neg :: "'f runtime \<Rightarrow> 'f pyval \<Rightarrow> 'f failure + 'f pyval" where
  "py_neg R (PFloat x) = Inr (PFloat (f_neg R x))"
| "py_neg R (PInt i) = Inr (PInt (- i))"
| "py_neg R (PBool b) = Inr (PInt (- (if b then 1 else 0)))"
| "py_neg R (PObj obj) = obj_neg R obj"
| "py_neg R v = Inl (BadUnaryMinus v)"

text \<open>
  One pass of the loop body for one key of the raw block. The payload \<open>gps_data\<close> is
  updated in place, so an exception leaves the entries stored so far.
\<close>

definition gps_tag_step ::
  "'f runtime \<Rightarrow> tag_table \<Rightarrow> 'f pydict \<Rightarrow> pykey \<Rightarrow> 'f pydict \<Rightarrow> 'f failure + 'f pydict" where
  "gps_tag_step R G gps_info key gps_data =
     (case map_of gps_info key of
        None \<Rightarrow> Inl (KeyError key)
      | Some v \<Rightarrow>
          (let tag = resolve_tag G key in
           if tag = KStr ''GPSLatitude'' then
             (case convert_to_degrees R v of
                Inl e \<Rightarrow> Inl e
              | Inr degrees \<Rightarrow>
                  Inr (AList.update (KStr ''LatitudeRef'') (dict_get gps_info (KInt 1) (PStr ''Unknown''))
                        (AList.update (KStr ''Latitude'') degrees gps_data)))
           else if tag = KStr ''GPSLongitude'' then
             (case convert_to_degrees R v of
                Inl e \<Rightarrow> Inl e
              | Inr degrees \<Rightarrow>
                  Inr (AList.update (KStr ''LongitudeRef'') (dict_get gps_info (KInt 3) (PStr ''Unknown''))
                        (AList.update (KStr ''Longitude'') degrees gps_data)))
           else if tag = KStr ''GPSAltitude'' then
             (case py_float R v of
                Inl e \<Rightarrow> Inl e
              | Inr x \<Rightarrow> Inr (AList.update (KStr ''Altitude'') (PStr (float_repr R x @ '' meters'')) gps_data))
           else if tag = KStr ''GPSTimeStamp'' then
             (case py_str R v of
                Inl e \<Rightarrow> Inl e
              | Inr s \<Rightarrow> Inr (AList.update (KStr ''GPSTime'') (PStr s) gps_data))
           else
             Inr (AList.update tag v gps_data)))"

text \<open>
  The \<open>for\<close> loop over the keys: the payload reached, and the exception that stopped
  the loop, if any.
\<close>

fun gps_loop ::
  "'f runtime \<Rightarrow> tag_table \<Rightarrow> 'f pydict \<Rightarrow> pykey list \<Rightarrow> 'f pydict \<Rightarrow> 'f pydict \<times> 'f failure option" where
  "gps_loop R G gps_info [] gps_data = (gps_data, None)"
| "gps_loop R G gps_info (key # keys) gps_data =
     (case gps_tag_step R G gps_info key gps_data of
        Inl e \<Rightarrow> (gps_data, Some e)
      | Inr gps_data' \<Rightarrow> gps_loop R G gps_info keys gps_data')"

text \<open>
  The sign correction of one coordinate: \<open>-x\<close> when the reference equals the letter,
  \<open>x\<close> otherwise.
\<close>

definition sign_corrected ::
  "'f runtime \<Rightarrow> 'f pydict \<Rightarrow> string \<Rightarrow> string \<Rightarrow> 'f pyval \<Rightarrow> 'f failure + 'f pyval" where
  "sign_corrected R gps_data ref letter x =
     (if ref_equals R gps_data ref letter then py_neg R x else Inr x)"

text \<open>
  The block after the loop: when both coordinates are present, the sign correction of
  the latitude, then of the longitude, then the f-string of the link (\<open>str\<close> of the
  latitude, then of the longitude), stored under \<open>Google_Maps_Link\<close>.
\<close>

definition add_maps_link :: "'f runtime \<Rightarrow> 'f pydict \<Rightarrow> 'f failure + 'f pydict" where
  "add_maps_link R gps_data =
     (if has_key gps_data (KStr ''Latitude'') \<and> has_key gps_data (KStr ''Longitude'') then
        (case sign_corrected R gps_data ''LatitudeRef'' ''S'' (dict_get gps_data (KStr ''Latitude'') PNone) of
           Inl e \<Rightarrow> Inl e
         | Inr lat \<Rightarrow>
             (case sign_corrected R gps_data ''LongitudeRef'' ''W'' (dict_get gps_data (KStr ''Longitude'') PNone) of
                Inl e \<Rightarrow> Inl e
              | Inr lon \<Rightarrow>
                  (case py_str R lat of
                     Inl e \<Rightarrow> Inl e
                   | Inr lat_text \<Rightarrow>
                       (case py_str R lon of
                          Inl e \<Rightarrow> Inl e
                        | Inr lon_text \<Rightarrow>
                            Inr (AList.update (KStr ''Google_Maps_Link'')
                                  (PStr (''https://maps.google.com/?q='' @ lat_text @ '','' @ lon_text))
                                  gps_data)))))
      else Inr gps_data)"

text \<open>
  The whole function: \<open>gps_info.keys()\<close> raises on a value that is not a mapping; every
  exception adds the field \<open>Error\<close> to the payload built so far, which is returned.
\<close>

definition extract_gps_info :: "'f runtime \<Rightarrow> tag_table \<Rightarrow> 'f pyval \<Rightarrow> 'f pydict" where
  "extract_gps_info R G gps_info =
     (case as_mapping R gps_info of
        None \<Rightarrow> [(KStr ''Error'', PStr (exc_str R (NoAttribute gps_info ''keys'')))]
      | Some info \<Rightarrow>
          (case gps_loop R G info (map fst info) [] of
             (gps_data, Some e) \<Rightarrow> AList.update (KStr ''Error'') (PStr (exc_str R e)) gps_data
           | (gps_data, None) \<Rightarrow>
               (case add_maps_link R gps_data of
                  Inl e \<Rightarrow> AList.update (KStr ''Error'') (PStr (exc_str R e)) gps_data
                | Inr gps_data' \<Rightarrow> gps_data')))"

section \<open>The extractor and its collaborators\<close>

text \<open>
  The object of class \<open>PhotoMetadataExtractor\<close>: the path, a text, and the record being
  built. Every method takes the object and returns it updated.
\<close>

record 'f extractor =
  image_path :: string
  metadata :: "'f pydict"

definition PhotoMetadataExtractor :: "string \<Rightarrow> 'f extractor" where
  "PhotoMetadataExtractor path = \<lparr>image_path = path, metadata = []\<rparr>"

text \<open>
  What the program reads and writes outside. A call that raises gives the message
  \<open>str(e)\<close> of the exception.
  \<^item> \<open>Image.open\<close> gives an image with its format (possibly \<open>None\<close>), mode and pixel
    dimensions; \<open>img._getexif()\<close> gives \<open>None\<close> or a mapping from tag ids to values, or
    raises.
  \<^item> \<open>os.path.getsize\<close> and \<open>os.stat\<close>.
  \<^item> \<open>pillow_heif.read_heif(path).metadata\<close>: the items as pairs of \<open>item['type']\<close> and
    \<open>item['data']\<close>, or the message of whatever the reading or the iteration raised.
  \<^item> \<open>open(output_file, 'w', encoding='utf-8')\<close>: \<open>Some\<close> message when it raises; and the
    writing of the encoded record into the open file, with its closing: \<open>Some\<close> message
    when the device or the UTF-8 encoding of a text raises.
  \<^item> \<open>print(line)\<close>: \<open>Some\<close> message when the console cannot encode the line.
\<close>

record 'f image =
  img_format :: "string option"
  img_mode :: string
  img_width :: int
  img_height :: int
  img_getexif :: "string + 'f pydict option"

record 'f stat_result =
  st_ctime :: 'f
  st_mtime :: 'f
  st_atime :: 'f
  st_mode :: int
  st_ino :: int

record 'f env =
  image_open :: "string \<Rightarrow> string + 'f image"
  getsize :: "string \<Rightarrow> string + int"
  read_heif :: "string \<Rightarrow> string + (pykey \<times> 'f pyval) list"
  os_stat :: "string \<Rightarrow> string + 'f stat_result"
  open_write :: "string \<Rightarrow> string option"
  file_write :: "string \<Rightarrow> 'f pydict \<Rightarrow> string option"
  stdout_write :: "string \<Rightarrow> string option"

definition py_print :: "'f env \<Rightarrow> string \<Rightarrow> 'f failure + string" where
  "py_print E line =
     (case stdout_write E line of
        None \<Rightarrow> Inr line
      | Some msg \<Rightarrow> Inl (PrintFailed msg))"

definition error_payload :: "string \<Rightarrow> 'f pyval" where
  "error_payload msg = PDict [(KStr ''Error'', PStr msg)]"

definition set_category :: "string \<Rightarrow> 'f pyval \<Rightarrow> 'f extractor \<Rightarrow> 'f extractor" where
  "set_category name payload self =
     self\<lparr>metadata := AList.update (KStr name) payload (metadata self)\<rparr>"

subsection \<open>Paths (\<open>os.path\<close> of a POSIX system)\<close>

text \<open>\<open>s.rfind(c)\<close>: the index of the last occurrence, or \<open>-1\<close>.\<close>

fun rfind :: "char \<Rightarrow> string \<Rightarrow> int" where
  "rfind c [] = - 1"
| "rfind c (x # xs) =
     (let r = rfind c xs in if 0 \<le> r then r + 1 else if x = c then 0 else - 1)"

definition basename :: "string \<Rightarrow> string" where
  "basename p = drop (nat (rfind CHR ''/'' p + 1)) p"

text \<open>
  \<open>genericpath._splitext(p, sep, altsep, extsep)\<close>: the extension starts at the last dot
  after the last separator, unless only dots stand between the separator and it.
\<close>

function skip_leading_dots :: "string \<Rightarrow> char \<Rightarrow> nat \<Rightarrow> nat \<Rightarrow> bool" where
  "skip_leading_dots p extsep filenameIndex dotIndex =
     (if filenameIndex < dotIndex then
        (if p ! filenameIndex \<noteq> extsep then True
         else skip_leading_dots p extsep (Suc filenameIndex) dotIndex)
      else False)"
  by pat_completeness auto
termination
  by (relation "measure (\<lambda>(p, extsep, filenameIndex, dotIndex). dotIndex - filenameIndex)") auto

definition splitext_generic :: "string \<Rightarrow> char \<Rightarrow> char option \<Rightarrow> char \<Rightarrow> string \<times> string" where
  "splitext_generic p sep altsep extsep =
     (let sepIndex = (case altsep of
                        None \<Rightarrow> rfind sep p
                      | Some a \<Rightarrow> max (rfind sep p) (rfind a p));
          dotIndex = rfind extsep p
      in if dotIndex > sepIndex \<and> skip_leading_dots p extsep (nat (sepIndex + 1)) (nat dotIndex)
         then (take (nat dotIndex) p, drop (nat dotIndex) p)
         else (p, []))"

definition splitext :: "string \<Rightarrow> string \<times> string" where
  "splitext p = splitext_generic p CHR ''/'' None CHR ''.''"

text \<open>\<open>s.lower()\<close> on the ASCII letters, and \<open>s.endswith(suffix)\<close>.\<close>

definition lower_char :: "char \<Rightarrow> char" where
  "lower_char c = (let n = (of_char c :: nat) in if 65 \<le> n \<and> n \<le> 90 then char_of (n + 32) else c)"

definition py_lower :: "string \<Rightarrow> string" where
  "py_lower s = map lower_char s"

definition endswith :: "string \<Rightarrow> string \<Rightarrow> bool" where
  "endswith s suffix = (length suffix \<le> length s \<and> drop (length s - length suffix) s = suffix)"

subsection \<open>The four extraction steps\<close>

text \<open>
  Each step is a \<open>try\<close> whose handler catches every \<open>Exception\<close> and stores
  \<open>{'Error': str(e)}\<close> under the key of the category. The body of each \<open>try\<close> gives the
  payload, or the message of the exception it raised.
\<close>

definition basic_info_body :: "'f runtime \<Rightarrow> 'f env \<Rightarrow> string \<Rightarrow> string + 'f pyval" where
  "basic_info_body R E path =
     (case image_open E path of
        Inl msg \<Rightarrow> Inl msg
      | Inr img \<Rightarrow>
          (case getsize E path of
             Inl msg \<Rightarrow> Inl msg
           | Inr n \<Rightarrow>
               (case py_str R (PInt n) of
                  Inl e \<Rightarrow> Inl (exc_str R e)
                | Inr size_text \<Rightarrow>
                    Inr (PDict
                      [(KStr ''Format'', (case img_format img of None \<Rightarrow> PNone | Some f \<Rightarrow> PStr f)),
                       (KStr ''Mode'', PStr (img_mode img)),
                       (KStr ''Size'', PTuple [PInt (img_width img), PInt (img_height img)]),
                       (KStr ''Width'', PInt (img_width img)),
                       (KStr ''Height'', PInt (img_height img)),
                       (KStr ''Filename'', PStr (basename path)),
                       (KStr ''File_Size'', PStr (size_text @ '' bytes''))]))))"

definition extract_basic_info :: "'f runtime \<Rightarrow> 'f env \<Rightarrow> 'f extractor \<Rightarrow> 'f extractor" where
  "extract_basic_info R E self =
     (case basic_info_body R E (image_path self) of
        Inr payload \<Rightarrow> set_category ''Basic_Info'' payload self
      | Inl msg \<Rightarrow> set_category ''Basic_Info'' (error_payload msg) self)"

text \<open>
  The value stored for a tag other than the GPS block: a byte string is decoded, with
  \<open>str(value)\<close> where the decoding raises; every other value is stored as it is.
\<close>

definition exif_value :: "'f runtime \<Rightarrow> 'f pyval \<Rightarrow> 'f failure + 'f pyval" where
  "exif_value R v =
     (case v of
        PBytes b \<Rightarrow>
          (case decode_utf8_ignore R b of
             Some s \<Rightarrow> Inr (PStr s)
           | None \<Rightarrow> (case py_str R v of Inl e \<Rightarrow> Inl e | Inr s \<Rightarrow> Inr (PStr s)))
      | _ \<Rightarrow> Inr v)"

text \<open>The loop over \<open>exif_data.items()\<close>; the GPS block goes through \<open>extract_gps_info\<close>.\<close>

fun exif_loop ::
  "'f runtime \<Rightarrow> tag_table \<Rightarrow> tag_table \<Rightarrow> 'f pydict \<Rightarrow> 'f pydict \<Rightarrow> 'f failure + 'f pydict" where
  "exif_loop R T G [] exif_dict = Inr exif_dict"
| "exif_loop R T G ((tag_id, v) # rest) exif_dict =
     (let tag = resolve_tag T tag_id in
      if tag = KStr ''GPSInfo'' then
        exif_loop R T G rest (AList.update tag (PDict (extract_gps_info R G v)) exif_dict)
      else
        (case exif_value R v of
           Inl e \<Rightarrow> Inl e
         | Inr v' \<Rightarrow> exif_loop R T G rest (AList.update tag v' exif_dict)))"

definition exif_data_body ::
  "'f runtime \<Rightarrow> tag_table \<Rightarrow> tag_table \<Rightarrow> 'f env \<Rightarrow> string \<Rightarrow> string + 'f pyval" where
  "exif_data_body R T G E path =
     (case image_open E path of
        Inl msg \<Rightarrow> Inl msg
      | Inr img \<Rightarrow>
          (case img_getexif img of
             Inl msg \<Rightarrow> Inl msg
           | Inr exif_data \<Rightarrow>
               (case exif_data of
                  Some (item # items) \<Rightarrow>
                    (case exif_loop R T G (item # items) [] of
                       Inl e \<Rightarrow> Inl (exc_str R e)
                     | Inr exif_dict \<Rightarrow> Inr (PDict exif_dict))
                | _ \<Rightarrow> Inr (PDict [(KStr ''Info'', PStr ''No EXIF data found'')]))))"

definition extract_exif_data ::
  "'f runtime \<Rightarrow> tag_table \<Rightarrow> tag_table \<Rightarrow> 'f env \<Rightarrow> 'f extractor \<Rightarrow> 'f extractor" where
  "extract_exif_data R T G E self =
     (case exif_data_body R T G E (image_path self) of
        Inr payload \<Rightarrow> set_category ''EXIF_Data'' payload self
      | Inl msg \<Rightarrow> set_category ''EXIF_Data'' (error_payload msg) self)"

definition is_heic_path :: "string \<Rightarrow> bool" where
  "is_heic_path path = (endswith (py_lower path) ''.heic'' \<or> endswith (py_lower path) ''.heif'')"

fun heic_loop :: "(pykey \<times> 'f pyval) list \<Rightarrow> 'f pydict \<Rightarrow> 'f pydict" where
  "heic_loop [] md = md"
| "heic_loop ((ty, data) # items) md = heic_loop items (AList.update ty data md)"

definition heic_metadata_body :: "'f env \<Rightarrow> string \<Rightarrow> string + 'f pyval" where
  "heic_metadata_body E path =
     (case read_heif E path of
        Inl msg \<Rightarrow> Inl msg
      | Inr items \<Rightarrow> Inr (PDict (heic_loop items [])))"

definition extract_heic_metadata :: "'f env \<Rightarrow> 'f extractor \<Rightarrow> 'f extractor" where
  "extract_heic_metadata E self =
     (if is_heic_path (image_path self) then
        (case heic_metadata_body E (image_path self) of
           Inr payload \<Rightarrow> set_category ''HEIC_Metadata'' payload self
         | Inl msg \<Rightarrow> set_category ''HEIC_Metadata'' (error_payload msg) self)
      else self)"

definition file_metadata_body :: "'f env \<Rightarrow> string \<Rightarrow> string + 'f pyval" where
  "file_metadata_body E path =
     (case os_stat E path of
        Inl msg \<Rightarrow> Inl msg
      | Inr stat_info \<Rightarrow>
          Inr (PDict
            [(KStr ''Creation_Time'', PFloat (st_ctime stat_info)),
             (KStr ''Modification_Time'', PFloat (st_mtime stat_info)),
             (KStr ''Access_Time'', PFloat (st_atime stat_info)),
             (KStr ''File_Permissions'', PInt (st_mode stat_info)),
             (KStr ''File_Inode'', PInt (st_ino stat_info))]))"

definition extract_file_metadata :: "'f env \<Rightarrow> 'f extractor \<Rightarrow> 'f extractor" where
  "extract_file_metadata E self =
     (case file_metadata_body E (image_path self) of
        Inr payload \<Rightarrow> set_category ''File_System_Data'' payload self
      | Inl msg \<Rightarrow> set_category ''File_System_Data'' (error_payload msg) self)"

text \<open>
  What a step stores under its key: the payload of its body, or the error payload with
  the message of the exception.
\<close>

definition stored :: "string + 'f pyval \<Rightarrow> 'f pyval" where
  "stored outcome = (case outcome of Inr payload \<Rightarrow> payload | Inl msg \<Rightarrow> error_payload msg)"

subsection \<open>\<open>display_metadata\<close> and \<open>extract_all\<close>\<close>

text \<open>\<open>needle in text\<close>, the substring test.\<close>

fun contains :: "string \<Rightarrow> string \<Rightarrow> bool" where
  "contains needle [] = (needle = [])"
| "contains needle (c # cs) = (take (length needle) (c # cs) = needle \<or> contains needle cs)"

definition esc :: "string \<Rightarrow> string" where
  "esc code = CHR 0x1B # code"

text \<open>
  One field line. \<open>key in ['Google_Maps_Link']\<close> compares and is false for a numeric
  key; \<open>'GPS' in key\<close> raises TypeError on a numeric key; the f-string takes \<open>str\<close> of
  the value.
\<close>

definition field_line :: "'f runtime \<Rightarrow> pykey \<Rightarrow> 'f pyval \<Rightarrow> 'f failure + string" where
  "field_line R key v =
     (if key = KStr ''Google_Maps_Link'' then
        (case py_str R v of
           Inl e \<Rightarrow> Inl e
         | Inr s \<Rightarrow> Inr (''  Google_Maps_Link: '' @ esc ''[94m'' @ s @ esc ''[0m''))
      else
        (case key of
           KInt i \<Rightarrow> Inl (NotContainer key)
         | KStr k \<Rightarrow>
             (case py_str R v of
                Inl e \<Rightarrow> Inl e
              | Inr s \<Rightarrow>
                  if contains ''GPS'' k \<or> contains ''Location'' k
                  then Inr (''  '' @ k @ '': '' @ esc ''[92m'' @ s @ esc ''[0m'')
                  else Inr (''  '' @ k @ '': '' @ s))))"

text \<open>
  The lines are printed one by one; the first exception, of a line or of its printing,
  ends the display. The result is the list of the lines printed.
\<close>

fun display_fields :: "'f runtime \<Rightarrow> 'f env \<Rightarrow> 'f pydict \<Rightarrow> 'f failure + string list" where
  "display_fields R E [] = Inr []"
| "display_fields R E ((key, v) # rest) =
     (case field_line R key v of
        Inl e \<Rightarrow> Inl e
      | Inr line \<Rightarrow>
          (case py_print E line of
             Inl e \<Rightarrow> Inl e
           | Inr printed \<Rightarrow>
               (case display_fields R E rest of
                  Inl e \<Rightarrow> Inl e
                | Inr lines \<Rightarrow> Inr (printed # lines))))"

definition display_payload :: "'f runtime \<Rightarrow> 'f env \<Rightarrow> 'f pyval \<Rightarrow> 'f failure + string list" where
  "display_payload R E data =
     (case data of
        PDict items \<Rightarrow> display_fields R E items
      | _ \<Rightarrow>
          (case py_str R data of
             Inl e \<Rightarrow> Inl e
           | Inr s \<Rightarrow> (case py_print E (''  '' @ s) of Inl e \<Rightarrow> Inl e | Inr printed \<Rightarrow> Inr [printed])))"

fun display_categories :: "'f runtime \<Rightarrow> 'f env \<Rightarrow> 'f pydict \<Rightarrow> 'f failure + string list" where
  "display_categories R E [] = Inr []"
| "display_categories R E ((category, data) # rest) =
     (case py_str R (pyval_of_key category) of
        Inl e \<Rightarrow> Inl e
      | Inr name \<Rightarrow>
          (case py_print E (CHR 0x0A # name @ '':'') of
             Inl e \<Rightarrow> Inl e
           | Inr heading \<Rightarrow>
               (case py_print E (replicate 40 CHR ''-'') of
                  Inl e \<Rightarrow> Inl e
                | Inr rule \<Rightarrow>
                    (case display_payload R E data of
                       Inl e \<Rightarrow> Inl e
                     | Inr body \<Rightarrow>
                         (case display_categories R E rest of
                            Inl e \<Rightarrow> Inl e
                          | Inr lines \<Rightarrow> Inr ([heading, rule] @ body @ lines))))))"

definition display_metadata :: "'f runtime \<Rightarrow> 'f env \<Rightarrow> 'f extractor \<Rightarrow> 'f failure + string list" where
  "display_metadata R E self =
     (case py_print E (replicate 70 CHR ''='') of
        Inl e \<Rightarrow> Inl e
      | Inr l1 \<Rightarrow>
          (case py_print E (''METADATA EKSTRAKSI UNTUK: '' @ image_path self) of
             Inl e \<Rightarrow> Inl e
           | Inr l2 \<Rightarrow>
               (case py_print E (replicate 70 CHR ''='') of
                  Inl e \<Rightarrow> Inl e
                | Inr l3 \<Rightarrow>
                    (case display_categories R E (metadata self) of
                       Inl e \<Rightarrow> Inl e
                     | Inr lines \<Rightarrow> Inr ([l1, l2, l3] @ lines)))))"

text \<open>The four steps in their order, on the object.\<close>

definition run_steps ::
  "'f runtime \<Rightarrow> tag_table \<Rightarrow> tag_table \<Rightarrow> 'f env \<Rightarrow> 'f extractor \<Rightarrow> 'f extractor" where
  "run_steps R T G E self =
     extract_file_metadata E
       (extract_heic_metadata E
         (extract_exif_data R T G E
           (extract_basic_info R E self)))"

text \<open>
  \<open>extract_all\<close>: the first line is printed (the magnifying glass is U+1F50D), then the
  four steps run, then the display. The result is the object as the call leaves it,
  and what the call gives back: the record, or the exception of a \<open>print\<close> or of
  \<open>display_metadata\<close>, which nothing catches.
\<close>

definition banner :: "string \<Rightarrow> string" where
  "banner path = [CHR 0xF0, CHR 0x9F, CHR 0x94, CHR 0x8D] @ '' Memproses file: '' @ path"

definition extract_all ::
  "'f runtime \<Rightarrow> tag_table \<Rightarrow> tag_table \<Rightarrow> 'f env \<Rightarrow> 'f extractor
     \<Rightarrow> 'f extractor \<times> ('f failure + 'f pydict)" where
  "extract_all R T G E self =
     (case py_print E (banner (image_path self)) of
        Inl e \<Rightarrow> (self, Inl e)
      | Inr line \<Rightarrow>
          (let self' = run_steps R T G E self in
           case display_metadata R E self' of
             Inl e \<Rightarrow> (self', Inl e)
           | Inr lines \<Rightarrow> (self', Inr (metadata self'))))"

section \<open>\<open>save_to_json\<close>\<close>

text \<open>
  The JSON encoder accepts \<open>None\<close>, booleans, floats and text; an integer when its
  decimal text can be made; tuples and lists of accepted values; dictionaries of
  accepted values (a numeric key is written as its decimal text); an object when the
  runtime says so; it raises on a byte string. It also gives up on a value nested
  deeper than its recursion limit: \<open>py_depth\<close> counts the levels of containers.
\<close>

definition int_text_ok :: "'f runtime \<Rightarrow> int \<Rightarrow> bool" where
  "int_text_ok R i = (case rt_str R (PInt i) of Inr s \<Rightarrow> True | Inl e \<Rightarrow> False)"

definition json_key_ok :: "'f runtime \<Rightarrow> pykey \<Rightarrow> bool" where
  "json_key_ok R k = (case k of KStr s \<Rightarrow> True | KInt i \<Rightarrow> int_text_ok R i)"

fun json_shape_ok :: "'f runtime \<Rightarrow> 'f pyval \<Rightarrow> bool" where
  "json_shape_ok R (PBytes b) = False"
| "json_shape_ok R (PInt i) = int_text_ok R i"
| "json_shape_ok R (PTuple xs) = list_all (json_shape_ok R) xs"
| "json_shape_ok R (PList xs) = list_all (json_shape_ok R) xs"
| "json_shape_ok R (PDict kvs) =
     list_all (\<lambda>kv. json_key_ok R (fst kv) \<and> json_shape_ok R (snd kv)) kvs"
| "json_shape_ok R (PObj obj) = obj_json_ok R obj"
| "json_shape_ok R v = True"

fun py_depth :: "'f pyval \<Rightarrow> nat" where
  "py_depth (PTuple xs) = Suc (foldr max (map py_depth xs) 0)"
| "py_depth (PList xs) = Suc (foldr max (map py_depth xs) 0)"
| "py_depth (PDict kvs) = Suc (foldr max (map (\<lambda>kv. py_depth (snd kv)) kvs) 0)"
| "py_depth v = 0"

text \<open>
  \<open>json.dumps(value)\<close>, the test made on each field, and \<open>json.dump(record, f, indent=2)\<close>,
  which writes the file: each succeeds on an accepted value within its depth.
\<close>

definition json_dumps_ok :: "'f runtime \<Rightarrow> 'f pyval \<Rightarrow> bool" where
  "json_dumps_ok R v = (json_shape_ok R v \<and> py_depth v \<le> dumps_max_depth R)"

definition json_dump_ok :: "'f runtime \<Rightarrow> 'f pyval \<Rightarrow> bool" where
  "json_dump_ok R v = (json_shape_ok R v \<and> py_depth v \<le> dump_max_depth R)"

text \<open>
  One field: the value itself when \<open>json.dumps\<close> accepts it, \<open>str(value)\<close> otherwise;
  \<open>str(value)\<close> is called in the handler of the inner \<open>try\<close>, so what it raises ends
  the loops.
\<close>

definition serialize_field :: "'f runtime \<Rightarrow> 'f pyval \<Rightarrow> 'f failure + 'f pyval" where
  "serialize_field R v =
     (if json_dumps_ok R v then Inr v
      else (case py_str R v of Inl e \<Rightarrow> Inl e | Inr s \<Rightarrow> Inr (PStr s)))"

text \<open>The inner loop over \<open>data.items()\<close> and the outer loop over the categories.\<close>

fun serialize_fields :: "'f runtime \<Rightarrow> 'f pydict \<Rightarrow> 'f pydict \<Rightarrow> 'f failure + 'f pydict" where
  "serialize_fields R [] out = Inr out"
| "serialize_fields R ((key, v) # rest) out =
     (case serialize_field R v of
        Inl e \<Rightarrow> Inl e
      | Inr v' \<Rightarrow> serialize_fields R rest (AList.update key v' out))"

definition serialize_category :: "'f runtime \<Rightarrow> 'f pyval \<Rightarrow> 'f failure + 'f pyval" where
  "serialize_category R data =
     (case data of
        PDict items \<Rightarrow>
          (case serialize_fields R items [] of Inl e \<Rightarrow> Inl e | Inr out \<Rightarrow> Inr (PDict out))
      | _ \<Rightarrow> (case py_str R data of Inl e \<Rightarrow> Inl e | Inr s \<Rightarrow> Inr (PStr s)))"

fun serialize_categories :: "'f runtime \<Rightarrow> 'f pydict \<Rightarrow> 'f pydict \<Rightarrow> 'f failure + 'f pydict" where
  "serialize_categories R [] out = Inr out"
| "serialize_categories R ((category, data) # rest) out =
     (case serialize_category R data of
        Inl e \<Rightarrow> Inl e
      | Inr data' \<Rightarrow> serialize_categories R rest (AList.update category data' out))"

definition serializable_metadata :: "'f runtime \<Rightarrow> 'f extractor \<Rightarrow> 'f failure + 'f pydict" where
  "serializable_metadata R self = serialize_categories R (metadata self) []"

definition default_output_file :: "string \<Rightarrow> string" where
  "default_output_file path = fst (splitext path) @ ''_metadata.json''"

text \<open>
  The body of the outer \<open>try\<close> up to the end of \<open>json.dump\<close>: the object written into
  the file, or the message of the exception.
\<close>

definition write_json :: "'f runtime \<Rightarrow> 'f env \<Rightarrow> 'f extractor \<Rightarrow> string \<Rightarrow> string + 'f pydict" where
  "write_json R E self output_file =
     (case serializable_metadata R self of
        Inl e \<Rightarrow> Inl (exc_str R e)
      | Inr sm \<Rightarrow>
          (case open_write E output_file of
             Some msg \<Rightarrow> Inl msg
           | None \<Rightarrow>
               if json_dump_ok R (PDict sm) then
                 (case file_write E output_file sm of
                    Some msg \<Rightarrow> Inl msg
                  | None \<Rightarrow> Inr sm)
               else Inl (exc_str R (NotSerializable (PDict sm)))))"

text \<open>
  The outcome of \<open>save_to_json\<close>: the file written with the object dumped into it (when
  \<open>json.dump\<close> completed), and the line reported to the user, or the exception of the
  \<open>print\<close> in the handler, which nothing catches. The check mark is U+2705, the cross
  U+274C.
\<close>

record 'f save_outcome =
  written :: "(string \<times> 'f pydict) option"
  reported :: "'f failure + string"

definition success_line :: "string \<Rightarrow> string" where
  "success_line output_file =
     CHR 0x0A # [CHR 0xE2, CHR 0x9C, CHR 0x85] @ '' Metadata disimpan ke: '' @ output_file"

definition error_line :: "string \<Rightarrow> string" where
  "error_line msg = [CHR 0xE2, CHR 0x9D, CHR 0x8C] @ '' Error menyimpan ke JSON: '' @ msg"

definition save_to_json ::
  "'f runtime \<Rightarrow> 'f env \<Rightarrow> 'f extractor \<Rightarrow> string option \<Rightarrow> 'f save_outcome" where
  "save_to_json R E self output_file =
     (let out = (case output_file of
                   None \<Rightarrow> default_output_file (image_path self)
                 | Some f \<Rightarrow> f)
      in case write_json R E self out of
           Inl msg \<Rightarrow> \<lparr>written = None, reported = py_print E (error_line msg)\<rparr>
         | Inr sm \<Rightarrow>
             (case py_print E (success_line out) of
                Inr line \<Rightarrow> \<lparr>written = Some (out, sm), reported = Inr line\<rparr>
              | Inl e \<Rightarrow> \<lparr>written = Some (out, sm), reported = py_print E (error_line (exc_str R e))\<rparr>))"

section \<open>A concrete runtime, tag tables and collaborators for the examples\<close>

text \<open>
  The examples below are evaluated in an idealised runtime with the defaults of
  CPython 3.11. A float is a rational number and the arithmetic is exact: on the
  values of the examples (10.5, 20.0 and the like) the doubles of CPython compute the
  same results, since every intermediate value is representable. \<open>repr\<close> of a float is
  its decimal expansion (at most 17 fractional digits), \<open>float()\<close> parses plain decimal
  literals, and \<open>repr\<close> of text puts it between single quotes (right for text without
  quotes, backslashes and control characters). \<open>str\<close> refuses an integer of more than
  4300 digits, that is one whose absolute value reaches \<open>10 ^ 4300\<close>, and a nesting
  deeper than 1000. Every object is a plain \<open>object()\<close>: it has no arithmetic, no
  iterator and no JSON form.
\<close>

fun digit_char :: "nat \<Rightarrow> char" where
  "digit_char n = char_of (48 + n)"

fun str_nat :: "nat \<Rightarrow> string" where
  "str_nat n = (if n < 10 then [digit_char n] else str_nat (n div 10) @ [digit_char (n mod 10)])"

definition str_int :: "int \<Rightarrow> string" where
  "str_int i = (if i < 0 then CHR ''-'' # str_nat (nat (- i)) else str_nat (nat i))"

fun join :: "string \<Rightarrow> string list \<Rightarrow> string" where
  "join sep [] = []"
| "join sep [x] = x"
| "join sep (x # y # ys) = x @ sep @ join sep (y # ys)"

fun frac_digits :: "nat \<Rightarrow> rat \<Rightarrow> string" where
  "frac_digits 0 r = []"
| "frac_digits (Suc n) r =
     (let t = r * 10; d = \<lfloor>t\<rfloor>
      in digit_char (nat d) # (if t = of_int d then [] else frac_digits n (t - of_int d)))"

definition rat_repr :: "rat \<Rightarrow> string" where
  "rat_repr q =
     (let a = \<bar>q\<bar>; ip = \<lfloor>a\<rfloor>
      in (if q < 0 then ''-'' else []) @ str_int ip @ ''.'' @ frac_digits 17 (a - of_int ip))"

definition is_digit :: "char \<Rightarrow> bool" where
  "is_digit c = (48 \<le> (of_char c :: nat) \<and> (of_char c :: nat) \<le> 57)"

fun digits_val :: "string \<Rightarrow> nat \<Rightarrow> nat" where
  "digits_val [] acc = acc"
| "digits_val (c # cs) acc = digits_val cs (10 * acc + (of_char c - 48))"

definition parse_unsigned :: "string \<Rightarrow> rat option" where
  "parse_unsigned s =
     (let ip = takeWhile is_digit s; rest = dropWhile is_digit s
      in if ip = [] then None
         else (case rest of
                 [] \<Rightarrow> Some (of_nat (digits_val ip 0))
               | c # fr \<Rightarrow>
                   if c = CHR ''.'' \<and> list_all is_digit fr
                   then Some (of_nat (digits_val ip 0) + of_nat (digits_val fr 0) / 10 ^ length fr)
                   else None))"

definition parse_decimal :: "string \<Rightarrow> rat option" where
  "parse_decimal s =
     (case s of
        [] \<Rightarrow> None
      | c # cs \<Rightarrow> if c = CHR ''-'' then map_option uminus (parse_unsigned cs) else parse_unsigned s)"

definition quote_repr :: "string \<Rightarrow> string" where
  "quote_repr s = CHR 0x27 # s @ [CHR 0x27]"

definition key_repr :: "pykey \<Rightarrow> string" where
  "key_repr k = (case k of KStr s \<Rightarrow> quote_repr s | KInt i \<Rightarrow> str_int i)"

fun ideal_repr :: "rat pyval \<Rightarrow> string" where
  "ideal_repr PNone = ''None''"
| "ideal_repr (PBool b) = (if b then ''True'' else ''False'')"
| "ideal_repr (PInt i) = str_int i"
| "ideal_repr (PFloat x) = rat_repr x"
| "ideal_repr (PStr s) = quote_repr s"
| "ideal_repr (PBytes b) = CHR ''b'' # quote_repr b"
| "ideal_repr (PTuple xs) =
     (case xs of
        [x] \<Rightarrow> ''('' @ ideal_repr x @ '',)''
      | _ \<Rightarrow> ''('' @ join '', '' (map ideal_repr xs) @ '')'')"
| "ideal_repr (PList xs) = ''['' @ join '', '' (map ideal_repr xs) @ '']''"
| "ideal_repr (PDict kvs) =
     ''{'' @ join '', '' (map (\<lambda>kv. key_repr (fst kv) @ '': '' @ ideal_repr (snd kv)) kvs) @ ''}''"
| "ideal_repr (PObj obj) = ''<object '' @ str_nat obj @ ''>''"

definition digits_bound :: int where
  "digits_bound = 10 ^ 4300"

definition int_printable :: "int \<Rightarrow> bool" where
  "int_printable i = (\<bar>i\<bar> < digits_bound)"

definition key_printable :: "pykey \<Rightarrow> bool" where
  "key_printable k = (case k of KStr s \<Rightarrow> True | KInt i \<Rightarrow> int_printable i)"

fun ints_printable :: "'f pyval \<Rightarrow> bool" where
  "ints_printable (PInt i) = int_printable i"
| "ints_printable (PTuple xs) = list_all ints_printable xs"
| "ints_printable (PList xs) = list_all ints_printable xs"
| "ints_printable (PDict kvs) =
     list_all (\<lambda>kv. key_printable (fst kv) \<and> ints_printable (snd kv)) kvs"
| "ints_printable v = True"

definition ideal_str :: "rat pyval \<Rightarrow> rat failure + string" where
  "ideal_str v =
     (if ints_printable v \<and> py_depth v \<le> 1000 then Inr (ideal_repr v) else Inl (StrFailed v))"

text \<open>An integer of 5001 digits.\<close>

definition huge_int :: int where
  "huge_int = 10 ^ 5000"

definition type_name :: "'f pyval \<Rightarrow> string" where
  "type_name v =
     (case v of
        PNone \<Rightarrow> ''NoneType'' | PBool b \<Rightarrow> ''bool'' | PInt i \<Rightarrow> ''int'' | PFloat x \<Rightarrow> ''float''
      | PStr s \<Rightarrow> ''str'' | PBytes b \<Rightarrow> ''bytes'' | PTuple xs \<Rightarrow> ''tuple'' | PList xs \<Rightarrow> ''list''
      | PDict kvs \<Rightarrow> ''dict'' | PObj obj \<Rightarrow> ''object'')"

definition cpython_message :: "'f failure \<Rightarrow> string" where
  "cpython_message e =
     (case e of
        BadUnaryMinus v \<Rightarrow> ''bad operand type for unary -: '' @ quote_repr (type_name v)
      | BadFloat v \<Rightarrow>
          (case v of
             PStr s \<Rightarrow> ''could not convert string to float: '' @ quote_repr s
           | PInt i \<Rightarrow> ''int too large to convert to float''
           | _ \<Rightarrow> ''float() argument must be a string or a real number, not '' @ quote_repr (type_name v))
      | NoAttribute v a \<Rightarrow> quote_repr (type_name v) @ '' object has no attribute '' @ quote_repr a
      | KeyError k \<Rightarrow> key_repr k
      | BadOperands opr v w \<Rightarrow>
          ''unsupported operand type(s) for '' @ opr @ '': '' @ quote_repr (type_name v)
            @ '' and '' @ quote_repr (type_name w)
      | Overflow v \<Rightarrow> ''int too large to convert to float''
      | BadUnpack v \<Rightarrow> ''cannot unpack non-iterable '' @ type_name v @ '' object''
      | NotContainer k \<Rightarrow> ''argument of type '' @ quote_repr ''int'' @ '' is not iterable''
      | StrFailed v \<Rightarrow> ''Exceeds the limit (4300 digits) for integer string conversion''
      | NotSerializable v \<Rightarrow> ''Object of type '' @ type_name v @ '' is not JSON serializable''
      | PrintFailed msg \<Rightarrow> msg
      | ObjectRaised obj msg \<Rightarrow> msg)"

definition ideal_rt :: "rat runtime" where
  "ideal_rt =
     \<lparr>f_of_int = (\<lambda>i. Some (of_int i)),
      f_lit = of_int,
      f_add = (+),
      f_div = (/),
      f_neg = uminus,
      f_parse = parse_decimal,
      float_repr = rat_repr,
      rt_str = ideal_str,
      decode_utf8_ignore = (\<lambda>b. Some (filter (\<lambda>c. (of_char c :: nat) < 128) b)),
      dumps_max_depth = 1000,
      dump_max_depth = 1000,
      exc_str = cpython_message,
      obj_iter = (\<lambda>obj. Inl (BadUnpack (PObj obj))),
      obj_truediv = (\<lambda>obj x. Inl (BadOperands ''/'' (PObj obj) (PFloat x))),
      obj_add = (\<lambda>a b. Inl (BadOperands ''+'' a b)),
      obj_float = (\<lambda>obj. Inl (BadFloat (PObj obj))),
      obj_neg = (\<lambda>obj. Inl (BadUnaryMinus (PObj obj))),
      obj_eq_str = (\<lambda>obj s. False),
      obj_mapping = (\<lambda>obj. None),
      obj_json_ok = (\<lambda>obj. False)\<rparr>"

text \<open>The GPS tag table of the imaging library, and the part of its EXIF table used here.\<close>

definition GPSTAGS :: tag_table where
  "GPSTAGS = map_of
     [(0, ''GPSVersionID''), (1, ''GPSLatitudeRef''), (2, ''GPSLatitude''),
      (3, ''GPSLongitudeRef''), (4, ''GPSLongitude''), (5, ''GPSAltitudeRef''),
      (6, ''GPSAltitude''), (7, ''GPSTimeStamp''), (8, ''GPSSatellites''),
      (9, ''GPSStatus''), (10, ''GPSMeasureMode''), (11, ''GPSDOP''),
      (12, ''GPSSpeedRef''), (13, ''GPSSpeed''), (14, ''GPSTrackRef''),
      (15, ''GPSTrack''), (16, ''GPSImgDirectionRef''), (17, ''GPSImgDirection''),
      (18, ''GPSMapDatum''), (19, ''GPSDestLatitudeRef''), (20, ''GPSDestLatitude''),
      (21, ''GPSDestLongitudeRef''), (22, ''GPSDestLongitude''), (23, ''GPSDestBearingRef''),
      (24, ''GPSDestBearing''), (25, ''GPSDestDistanceRef''), (26, ''GPSDestDistance''),
      (27, ''GPSProcessingMethod''), (28, ''GPSAreaInformation''), (29, ''GPSDateStamp''),
      (30, ''GPSDifferential''), (31, ''GPSHPositioningError'')]"

definition TAGS :: tag_table where
  "TAGS = map_of
     [(271, ''Make''), (272, ''Model''), (274, ''Orientation''), (306, ''DateTime''),
      (33434, ''ExposureTime''), (34853, ''GPSInfo''), (36867, ''DateTimeOriginal''),
      (37500, ''MakerNote'')]"

text \<open>
  A file system with one readable JPEG image of 640 by 480 pixels at every path: the
  outcome of \<open>Image.open\<close> is a parameter, and with it the EXIF reader's answer; no path
  holds a HEIF container; every file can be written and every line printed.
\<close>

definition sample_image :: "string + rat pydict option \<Rightarrow> rat image" where
  "sample_image exif =
     \<lparr>img_format = Some ''JPEG'', img_mode = ''RGB'', img_width = 640, img_height = 480,
      img_getexif = exif\<rparr>"

definition sample_stat :: "rat stat_result" where
  "sample_stat =
     \<lparr>st_ctime = 1700000000, st_mtime = 1700000000, st_atime = 1700000000,
      st_mode = 33188, st_ino = 42\<rparr>"

definition sample_env :: "string + rat image \<Rightarrow> rat env" where
  "sample_env opened =
     \<lparr>image_open = (\<lambda>p. opened),
      getsize = (\<lambda>p. Inr 1024),
      read_heif = (\<lambda>p. Inl ''not a HEIF file''),
      os_stat = (\<lambda>p. Inr sample_stat),
      open_write = (\<lambda>p. None),
      file_write = (\<lambda>p sm. None),
      stdout_write = (\<lambda>line. None)\<rparr>"

section \<open>Dictionary updates\<close>

lemma map_of_update_alist:
  "map_of (AList.update k v al) k' = (if k' = k then Some v else map_of al k')"
  by (simp add: update_conv')

lemma has_key_update:
  "has_key (AList.update k v al) k' = (k' = k \<or> has_key al k')"
  by (simp add: has_key_def map_of_update_alist)

section \<open>Evaluation in the concrete runtime\<close>

lemma str_int_examples:
  "str_int 0 = ''0''" "str_int 1 = ''1''" "str_int 5 = ''5''" "str_int 10 = ''10''"
  "str_int 20 = ''20''" "str_int 30 = ''30''" "str_int 1024 = ''1024''"
  by code_simp+

lemma rat_repr_examples:
  "rat_repr 0 = ''0.0''" "rat_repr (21 / 2) = ''10.5''" "rat_repr (- (21 / 2)) = ''-10.5''"
  "rat_repr 20 = ''20.0''" "rat_repr (- 20) = ''-20.0''"
  by code_simp+

lemma digits_bound_large: "1000000 \<le> digits_bound"
proof -
  have a: "(10::int) ^ 6 \<le> 10 ^ 4300" by (rule power_increasing) simp_all
  have b: "(10::int) ^ 6 = 1000000" by simp
  show ?thesis unfolding digits_bound_def using a unfolding b .
qed

lemma int_printable_small: "\<bar>i\<bar> < 1000000 \<Longrightarrow> int_printable i"
  using digits_bound_large by (simp add: int_printable_def)

lemma huge_int_not_printable: "\<not> int_printable huge_int"
proof -
  have a: "(10::int) ^ 4300 \<le> 10 ^ 5000" by (rule power_increasing) simp_all
  have b: "(0::int) \<le> 10 ^ 5000" by (rule zero_le_power) simp
  have "\<bar>(10::int) ^ 5000\<bar> = 10 ^ 5000" using b by (rule abs_of_nonneg)
  then have "\<not> \<bar>(10::int) ^ 5000\<bar> < 10 ^ 4300" using a by (simp only: not_less)
  then show ?thesis unfolding int_printable_def huge_int_def digits_bound_def .
qed

lemma ideal_str_huge_int: "ideal_str (PInt huge_int) = Inl (StrFailed (PInt huge_int))"
  by (simp add: ideal_str_def huge_int_not_printable)

lemma ideal_rt_fields [simp]:
  "f_of_int ideal_rt i = Some (of_int i)"
  "f_lit ideal_rt i = of_int i"
  "f_add ideal_rt x y = x + y"
  "f_div ideal_rt x y = x / y"
  "f_neg ideal_rt x = - x"
  "float_repr ideal_rt x = rat_repr x"
  "rt_str ideal_rt v = ideal_str v"
  "exc_str ideal_rt e = cpython_message e"
  "obj_mapping ideal_rt obj = None"
  "obj_eq_str ideal_rt obj s = False"
  "obj_json_ok ideal_rt obj = False"
  "dumps_max_depth ideal_rt = 1000"
  "dump_max_depth ideal_rt = 1000"
  by (simp_all add: ideal_rt_def)

section \<open>Properties of \<open>convert_to_degrees\<close>\<close>

lemma float_of_number_not_obj: "float_of_number R a = Some x \<Longrightarrow> \<not> is_obj a"
  by (cases a) (simp_all add: is_obj_def)

lemma div_by_float_literal_number:
  "float_of_number R a = Some (Inr x) \<Longrightarrow>
     div_by_float_literal R a n = Inr (PFloat (f_div R x (f_lit R n)))"
  by (cases a) (simp_all add: div_by_float_literal_def)

lemma py_add_number_float:
  "float_of_number R a = Some (Inr x) \<Longrightarrow> py_add R a (PFloat y) = Inr (PFloat (f_add R x y))"
  by (cases a) (simp_all add: py_add_def is_obj_def split: option.splits)

lemma degrees_expr_numbers:
  assumes "float_of_number R d = Some (Inr fd)"
      and "float_of_number R m = Some (Inr fm)"
      and "float_of_number R s = Some (Inr fs)"
  shows "degrees_expr R d m s =
           Inr (PFloat (f_add R (f_add R fd (f_div R fm (f_lit R 60))) (f_div R fs (f_lit R 3600))))"
proof -
  have sum: "py_add R (PFloat x) (PFloat y) = Inr (PFloat (f_add R x y))" for x y
    by (rule py_add_number_float) simp
  show ?thesis
    using assms
    by (simp add: degrees_expr_def div_by_float_literal_number py_add_number_float sum)
qed

text \<open>
  Claim C2, as the code has it. When the value unpacks into exactly three parts and
  the expression \<open>d + (m / 60.0) + (s / 3600.0)\<close> evaluates, \<open>convert_to_degrees\<close>
  returns its value; when the parts are integers, booleans or floats this is the float
  \<open>float(d) + float(m) / 60.0 + float(s) / 3600.0\<close>. When the value does not unpack into
  exactly three parts, and when the expression raises, it returns \<open>str(value)\<close>, or
  raises what \<open>str(value)\<close> raises. It raises in no other case.
\<close>

theorem convert_to_degrees_value_or_str:
  "(unpack3 R v = Inr (d, m, s) \<and> degrees_expr R d m s = Inr r
      \<longrightarrow> convert_to_degrees R v = Inr r)
   \<and> (unpack3 R v = Inr (d, m, s) \<and> float_of_number R d = Some (Inr fd)
        \<and> float_of_number R m = Some (Inr fm) \<and> float_of_number R s = Some (Inr fs)
      \<longrightarrow> convert_to_degrees R v =
            Inr (PFloat (f_add R (f_add R fd (f_div R fm (f_lit R 60))) (f_div R fs (f_lit R 3600)))))
   \<and> (unpack3 R v = Inl e \<or> (unpack3 R v = Inr (d, m, s) \<and> degrees_expr R d m s = Inl e)
      \<longrightarrow> convert_to_degrees R v = (case py_str R v of Inr t \<Rightarrow> Inr (PStr t) | Inl e' \<Rightarrow> Inl e'))
   \<and> (convert_to_degrees R v = Inl e' \<longrightarrow> py_str R v = Inl e')"
proof (intro conjI impI)
  assume "unpack3 R v = Inr (d, m, s) \<and> degrees_expr R d m s = Inr r"
  then show "convert_to_degrees R v = Inr r"
    by (simp add: convert_to_degrees_def degrees_body_def)
next
  assume "unpack3 R v = Inr (d, m, s) \<and> float_of_number R d = Some (Inr fd)
        \<and> float_of_number R m = Some (Inr fm) \<and> float_of_number R s = Some (Inr fs)"
  then show "convert_to_degrees R v =
            Inr (PFloat (f_add R (f_add R fd (f_div R fm (f_lit R 60))) (f_div R fs (f_lit R 3600))))"
    by (simp add: convert_to_degrees_def degrees_body_def degrees_expr_numbers)
next
  assume "unpack3 R v = Inl e \<or> (unpack3 R v = Inr (d, m, s) \<and> degrees_expr R d m s = Inl e)"
  then show "convert_to_degrees R v = (case py_str R v of Inr t \<Rightarrow> Inr (PStr t) | Inl e' \<Rightarrow> Inl e')"
    by (auto simp: convert_to_degrees_def degrees_body_def)
next
  assume "convert_to_degrees R v = Inl e'"
  then show "py_str R v = Inl e'"
    by (auto simp: convert_to_degrees_def split: sum.splits)
qed

lemma ideal_float_of_int [simp]: "float_of_number ideal_rt (PInt i) = Some (Inr (of_int i))"
  by simp

text \<open>
  The examples of the specification: \<open>(10, 30, 0)\<close> gives 10.5 and \<open>(0, 0, 0)\<close> gives
  0.0; a pair, a triple with a text part and \<open>None\<close> give their string representation.
\<close>

theorem convert_to_degrees_value_or_str_witness:
  "convert_to_degrees ideal_rt (PTuple [PInt 10, PInt 30, PInt 0]) = Inr (PFloat (21 / 2))
   \<and> py_str ideal_rt (PFloat (21 / 2)) = Inr ''10.5''
   \<and> convert_to_degrees ideal_rt (PTuple [PInt 0, PInt 0, PInt 0]) = Inr (PFloat 0)
   \<and> py_str ideal_rt (PFloat 0) = Inr ''0.0''
   \<and> convert_to_degrees ideal_rt (PTuple [PInt 10, PInt 30]) = Inr (PStr ''(10, 30)'')
   \<and> convert_to_degrees ideal_rt (PTuple [PInt 10, PStr ''x'', PInt 0])
       = Inr (PStr (''(10, '' @ quote_repr ''x'' @ '', 0)''))
   \<and> convert_to_degrees ideal_rt PNone = Inr (PStr ''None'')"
proof -
  note T = convert_to_degrees_value_or_str
  have a: "convert_to_degrees ideal_rt (PTuple [PInt 10, PInt 30, PInt 0]) = Inr (PFloat (21 / 2))"
    using T [of ideal_rt "PTuple [PInt 10, PInt 30, PInt 0]" "PInt 10" "PInt 30" "PInt 0" _ 10 30 0]
    by (simp add: unpack3_def)
  have b: "convert_to_degrees ideal_rt (PTuple [PInt 0, PInt 0, PInt 0]) = Inr (PFloat 0)"
    using T [of ideal_rt "PTuple [PInt 0, PInt 0, PInt 0]" "PInt 0" "PInt 0" "PInt 0" _ 0 0 0]
    by (simp add: unpack3_def)
  have c: "convert_to_degrees ideal_rt (PTuple [PInt 10, PInt 30]) = Inr (PStr ''(10, 30)'')"
    using T [of ideal_rt "PTuple [PInt 10, PInt 30]" _ _ _ _ _ _ _ "BadUnpack (PTuple [PInt 10, PInt 30])"]
    by (simp add: unpack3_def py_str_def ideal_str_def int_printable_small str_int_examples)
  have d: "convert_to_degrees ideal_rt (PTuple [PInt 10, PStr ''x'', PInt 0])
             = Inr (PStr (''(10, '' @ quote_repr ''x'' @ '', 0)''))"
    using T [of ideal_rt "PTuple [PInt 10, PStr ''x'', PInt 0]" "PInt 10" "PStr ''x''" "PInt 0" _ _ _ _
               "BadOperands ''/'' (PStr ''x'') (PFloat 60)"]
    by (simp add: unpack3_def degrees_expr_def div_by_float_literal_def py_str_def ideal_str_def
          int_printable_small str_int_examples)
  have e: "convert_to_degrees ideal_rt PNone = Inr (PStr ''None'')"
    using T [of ideal_rt PNone _ _ _ _ _ _ _ "BadUnpack PNone"]
    by (simp add: unpack3_def py_str_def)
  show ?thesis using a b c d e by (simp add: py_str_def rat_repr_examples)
qed

text \<open>
  Claim C2 as stated fails twice. A GPS coordinate written as three pairs of numerator
  and denominator unpacks into exactly three parts, and the result is the string
  representation of the input, not a float. And on an integer of 5001 digits the
  unpacking raises, \<open>str(value)\<close> raises in the handler, and the exception leaves the
  function.
\<close>

theorem convert_to_degrees_counterexample:
  "unpack3 ideal_rt (PTuple [PTuple [PInt 10, PInt 1], PTuple [PInt 30, PInt 1], PTuple [PInt 0, PInt 1]])
     = Inr (PTuple [PInt 10, PInt 1], PTuple [PInt 30, PInt 1], PTuple [PInt 0, PInt 1])
   \<and> convert_to_degrees ideal_rt
       (PTuple [PTuple [PInt 10, PInt 1], PTuple [PInt 30, PInt 1], PTuple [PInt 0, PInt 1]])
     = Inr (PStr ''((10, 1), (30, 1), (0, 1))'')
   \<and> convert_to_degrees ideal_rt (PInt huge_int) = Inl (StrFailed (PInt huge_int))"
  by (simp add: convert_to_degrees_def degrees_body_def unpack3_def degrees_expr_def
        div_by_float_literal_def py_str_def ideal_str_def int_printable_small str_int_examples
        huge_int_not_printable)

section \<open>Properties of \<open>extract_gps_info\<close>\<close>

lemma gps_tag_step_other_key:
  assumes "gps_tag_step R G info key g = Inr g'"
      and "resolve_tag G key \<noteq> KStr ''Google_Maps_Link''"
  shows "map_of g' (KStr ''Google_Maps_Link'') = map_of g (KStr ''Google_Maps_Link'')"
  using assms
  by (auto simp: gps_tag_step_def Let_def map_of_update_alist split: option.splits if_splits sum.splits)

lemma gps_loop_no_link:
  assumes "\<forall>key \<in> set keys. resolve_tag G key \<noteq> KStr ''Google_Maps_Link''"
  shows "map_of (fst (gps_loop R G info keys g)) (KStr ''Google_Maps_Link'')
           = map_of g (KStr ''Google_Maps_Link'')"
  using assms
proof (induction keys arbitrary: g)
  case Nil
  then show ?case by simp
next
  case (Cons key keys)
  show ?case
  proof (cases "gps_tag_step R G info key g")
    case (Inl e)
    then show ?thesis by simp
  next
    case (Inr g')
    have "map_of (fst (gps_loop R G info keys g')) (KStr ''Google_Maps_Link'')
            = map_of g' (KStr ''Google_Maps_Link'')"
      using Cons by simp
    also have "\<dots> = map_of g (KStr ''Google_Maps_Link'')"
      using gps_tag_step_other_key [OF Inr] Cons.prems by simp
    finally show ?thesis using Inr by simp
  qed
qed

lemma resolve_numeric:
  "G i \<noteq> Some name \<Longrightarrow> resolve_tag G (KInt i) \<noteq> KStr name"
  by (auto simp: resolve_tag_def split: option.splits)

lemma add_maps_link_cases:
  "add_maps_link R g = Inr g' \<Longrightarrow>
     (g' = g \<and> \<not> (has_key g (KStr ''Latitude'') \<and> has_key g (KStr ''Longitude'')))
   \<or> (has_key g (KStr ''Latitude'') \<and> has_key g (KStr ''Longitude'')
       \<and> (\<exists>l. g' = AList.update (KStr ''Google_Maps_Link'') l g))"
  by (auto simp: add_maps_link_def split: if_splits sum.splits)

text \<open>
  Claim C7. A raw GPS block is a mapping keyed by numeric tag ids, and the tag table
  has no tag named \<open>Google_Maps_Link\<close>. For every such block, a payload that lacks
  the key \<open>Latitude\<close> or the key \<open>Longitude\<close> does not contain the key
  \<open>Google_Maps_Link\<close>. (A value that is no mapping gives a payload with the field
  \<open>Error\<close> alone.)
\<close>

theorem no_link_without_coordinates:
  assumes numeric: "case as_mapping R gps_info of
                      None \<Rightarrow> True
                    | Some info \<Rightarrow> list_all (\<lambda>key. \<exists>i. key = KInt i) (map fst info)"
      and table: "\<forall>i. G i \<noteq> Some ''Google_Maps_Link''"
      and missing: "\<not> has_key (extract_gps_info R G gps_info) (KStr ''Latitude'')
                  \<or> \<not> has_key (extract_gps_info R G gps_info) (KStr ''Longitude'')"
  shows "\<not> has_key (extract_gps_info R G gps_info) (KStr ''Google_Maps_Link'')"
proof (cases "as_mapping R gps_info")
  case None
  then show ?thesis by (simp add: extract_gps_info_def has_key_def)
next
  case (Some info)
  have keys: "\<forall>key \<in> set (map fst info). resolve_tag G key \<noteq> KStr ''Google_Maps_Link''"
  proof
    fix key assume "key \<in> set (map fst info)"
    then obtain i where "key = KInt i" using numeric Some by (auto simp: list_all_iff)
    then show "resolve_tag G key \<noteq> KStr ''Google_Maps_Link''"
      using table resolve_numeric [of G i] by simp
  qed
  obtain g ex where loop: "gps_loop R G info (map fst info) [] = (g, ex)"
    by (cases "gps_loop R G info (map fst info) []") auto
  have g: "\<not> has_key g (KStr ''Google_Maps_Link'')"
    using gps_loop_no_link [OF keys, of R info "[]"] loop by (simp add: has_key_def)
  show ?thesis
  proof (cases ex)
    case (Some e)
    then show ?thesis using loop g \<open>as_mapping R gps_info = Some info\<close>
      by (simp add: extract_gps_info_def has_key_update)
  next
    case None
    show ?thesis
    proof (cases "add_maps_link R g")
      case (Inl e)
      then show ?thesis using loop None g \<open>as_mapping R gps_info = Some info\<close>
        by (simp add: extract_gps_info_def has_key_update)
    next
      case (Inr g')
      then have res: "extract_gps_info R G gps_info = g'"
        using loop None \<open>as_mapping R gps_info = Some info\<close> by (simp add: extract_gps_info_def)
      from add_maps_link_cases [OF Inr] show ?thesis
      proof
        assume "g' = g \<and> \<not> (has_key g (KStr ''Latitude'') \<and> has_key g (KStr ''Longitude''))"
        then show ?thesis using res g by simp
      next
        assume "has_key g (KStr ''Latitude'') \<and> has_key g (KStr ''Longitude'')
                \<and> (\<exists>l. g' = AList.update (KStr ''Google_Maps_Link'') l g)"
        then have "has_key g' (KStr ''Latitude'') \<and> has_key g' (KStr ''Longitude'')"
          by (auto simp: has_key_update)
        then show ?thesis using missing res by simp
      qed
    qed
  qed
qed

lemma GPSTAGS_no_link: "\<forall>i. GPSTAGS i \<noteq> Some ''Google_Maps_Link''"
proof
  fix i
  show "GPSTAGS i \<noteq> Some ''Google_Maps_Link''"
  proof
    assume "GPSTAGS i = Some ''Google_Maps_Link''"
    then have "(i, ''Google_Maps_Link'') \<in> set
     [(0, ''GPSVersionID''), (1, ''GPSLatitudeRef''), (2, ''GPSLatitude''),
      (3, ''GPSLongitudeRef''), (4, ''GPSLongitude''), (5, ''GPSAltitudeRef''),
      (6, ''GPSAltitude''), (7, ''GPSTimeStamp''), (8, ''GPSSatellites''),
      (9, ''GPSStatus''), (10, ''GPSMeasureMode''), (11, ''GPSDOP''),
      (12, ''GPSSpeedRef''), (13, ''GPSSpeed''), (14, ''GPSTrackRef''),
      (15, ''GPSTrack''), (16, ''GPSImgDirectionRef''), (17, ''GPSImgDirection''),
      (18, ''GPSMapDatum''), (19, ''GPSDestLatitudeRef''), (20, ''GPSDestLatitude''),
      (21, ''GPSDestLongitudeRef''), (22, ''GPSDestLongitude''), (23, ''GPSDestBearingRef''),
      (24, ''GPSDestBearing''), (25, ''GPSDestDistanceRef''), (26, ''GPSDestDistance''),
      (27, ''GPSProcessingMethod''), (28, ''GPSAreaInformation''), (29, ''GPSDateStamp''),
      (30, ''GPSDifferential''), (31, ''GPSHPositioningError'')]"
      unfolding GPSTAGS_def by (rule map_of_SomeD)
    then show False by simp
  qed
qed

lemma GPSTAGS_examples:
  "GPSTAGS 1 = Some ''GPSLatitudeRef''" "GPSTAGS 2 = Some ''GPSLatitude''"
  "GPSTAGS 3 = Some ''GPSLongitudeRef''" "GPSTAGS 4 = Some ''GPSLongitude''"
  "GPSTAGS 6 = Some ''GPSAltitude''" "GPSTAGS 7 = Some ''GPSTimeStamp''"
  by (simp_all add: GPSTAGS_def)

lemma resolve_GPSTAGS_examples:
  "resolve_tag GPSTAGS (KInt 1) = KStr ''GPSLatitudeRef''"
  "resolve_tag GPSTAGS (KInt 2) = KStr ''GPSLatitude''"
  "resolve_tag GPSTAGS (KInt 3) = KStr ''GPSLongitudeRef''"
  "resolve_tag GPSTAGS (KInt 4) = KStr ''GPSLongitude''"
  "resolve_tag GPSTAGS (KInt 6) = KStr ''GPSAltitude''"
  "resolve_tag GPSTAGS (KInt 7) = KStr ''GPSTimeStamp''"
  by (simp_all add: resolve_tag_def GPSTAGS_examples)

lemma ideal_convert_triple:
  "convert_to_degrees ideal_rt (PTuple [PInt a, PInt b, PInt c])
     = Inr (PFloat (of_int a + of_int b / 60 + of_int c / 3600))"
  by (simp add: convert_to_degrees_def degrees_body_def unpack3_def degrees_expr_numbers)


lemma only_longitude_example:
  "extract_gps_info ideal_rt GPSTAGS (PDict [(KInt 3, PStr ''E''), (KInt 4, PTuple [PInt 20, PInt 0, PInt 0])])
    = [(KStr ''GPSLongitudeRef'', PStr ''E''), (KStr ''Longitude'', PFloat 20), (KStr ''LongitudeRef'', PStr ''E'')]"
  by (simp add: extract_gps_info_def as_mapping_def gps_tag_step_def resolve_GPSTAGS_examples
        dict_get_def ideal_convert_triple add_maps_link_def has_key_def)

text \<open>A block with a longitude and no latitude: the payload has no link.\<close>

theorem no_link_without_coordinates_witness:
  "list_all (\<lambda>key. \<exists>i. key = KInt i) (map fst [(KInt 3, PStr ''E''), (KInt 4, PTuple [PInt 20, PInt 0, PInt 0 :: rat pyval])])
   \<and> \<not> has_key (extract_gps_info ideal_rt GPSTAGS
          (PDict [(KInt 3, PStr ''E''), (KInt 4, PTuple [PInt 20, PInt 0, PInt 0])])) (KStr ''Latitude'')
   \<and> has_key (extract_gps_info ideal_rt GPSTAGS
          (PDict [(KInt 3, PStr ''E''), (KInt 4, PTuple [PInt 20, PInt 0, PInt 0])])) (KStr ''Longitude'')
   \<and> \<not> has_key (extract_gps_info ideal_rt GPSTAGS
          (PDict [(KInt 3, PStr ''E''), (KInt 4, PTuple [PInt 20, PInt 0, PInt 0])])) (KStr ''Google_Maps_Link'')"
proof -
  let ?info = "[(KInt 3, PStr ''E''), (KInt 4, PTuple [PInt 20, PInt 0, PInt 0 :: rat pyval])]"
  have n: "list_all (\<lambda>key. \<exists>i. key = KInt i) (map fst ?info)" by simp
  then have n': "case as_mapping ideal_rt (PDict ?info) of
                      None \<Rightarrow> True
                    | Some info \<Rightarrow> list_all (\<lambda>key. \<exists>i. key = KInt i) (map fst info)"
    by (simp add: as_mapping_def)
  have l: "\<not> has_key (extract_gps_info ideal_rt GPSTAGS (PDict ?info)) (KStr ''Latitude'')"
    by (simp add: only_longitude_example has_key_def)
  have m: "has_key (extract_gps_info ideal_rt GPSTAGS (PDict ?info)) (KStr ''Longitude'')"
    by (simp add: only_longitude_example has_key_def)
  from no_link_without_coordinates [OF n' GPSTAGS_no_link] l
  have "\<not> has_key (extract_gps_info ideal_rt GPSTAGS (PDict ?info)) (KStr ''Google_Maps_Link'')"
    by blast
  with n l m show ?thesis by blast
qed

lemma add_maps_link_stored:
  assumes "map_of g (KStr ''Latitude'') = Some lat"
      and "map_of g (KStr ''Longitude'') = Some lon"
      and "sign_corrected R g ''LatitudeRef'' ''S'' lat = Inr lat'"
      and "sign_corrected R g ''LongitudeRef'' ''W'' lon = Inr lon'"
      and "py_str R lat' = Inr lat_text"
      and "py_str R lon' = Inr lon_text"
  shows "add_maps_link R g =
           Inr (AList.update (KStr ''Google_Maps_Link'')
                  (PStr (''https://maps.google.com/?q='' @ lat_text @ '','' @ lon_text)) g)"
  using assms by (simp add: add_maps_link_def has_key_def dict_get_def)

text \<open>
  Claim C3, as the code has it. When the loop over the tags ends without an exception
  with both \<open>Latitude\<close> and \<open>Longitude\<close> derived, and neither the sign correction nor the
  formatting of the two values raises, the payload returned is the payload of the loop
  with the text \<open>https://maps.google.com/?q={lat},{lon}\<close> stored under
  \<open>Google_Maps_Link\<close>, where \<open>lat\<close> is the latitude, negated exactly when \<open>LatitudeRef\<close>
  equals \<open>'S'\<close>, and \<open>lon\<close> the longitude, negated exactly when \<open>LongitudeRef\<close> equals
  \<open>'W'\<close>. For float values nothing raises, and the link is built from the floats.
\<close>

theorem maps_link_from_signed_coordinates:
  assumes mapping: "as_mapping R gps_info = Some info"
      and loop: "gps_loop R G info (map fst info) [] = (g, None)"
      and lat: "map_of g (KStr ''Latitude'') = Some lat"
      and lon: "map_of g (KStr ''Longitude'') = Some lon"
  shows "(sign_corrected R g ''LatitudeRef'' ''S'' lat = Inr lat'
           \<and> sign_corrected R g ''LongitudeRef'' ''W'' lon = Inr lon'
           \<and> py_str R lat' = Inr lat_text \<and> py_str R lon' = Inr lon_text
          \<longrightarrow> extract_gps_info R G gps_info =
                AList.update (KStr ''Google_Maps_Link'')
                  (PStr (''https://maps.google.com/?q='' @ lat_text @ '','' @ lon_text)) g)
       \<and> (lat = PFloat x \<and> lon = PFloat y
          \<longrightarrow> extract_gps_info R G gps_info =
                AList.update (KStr ''Google_Maps_Link'')
                  (PStr (''https://maps.google.com/?q=''
                         @ float_repr R (if ref_equals R g ''LatitudeRef'' ''S'' then f_neg R x else x)
                         @ '',''
                         @ float_repr R (if ref_equals R g ''LongitudeRef'' ''W'' then f_neg R y else y)))
                  g)"
proof (intro conjI impI)
  assume "sign_corrected R g ''LatitudeRef'' ''S'' lat = Inr lat'
           \<and> sign_corrected R g ''LongitudeRef'' ''W'' lon = Inr lon'
           \<and> py_str R lat' = Inr lat_text \<and> py_str R lon' = Inr lon_text"
  then have "add_maps_link R g =
           Inr (AList.update (KStr ''Google_Maps_Link'')
                  (PStr (''https://maps.google.com/?q='' @ lat_text @ '','' @ lon_text)) g)"
    using add_maps_link_stored [OF lat lon] by blast
  then show "extract_gps_info R G gps_info =
                AList.update (KStr ''Google_Maps_Link'')
                  (PStr (''https://maps.google.com/?q='' @ lat_text @ '','' @ lon_text)) g"
    using mapping loop by (simp add: extract_gps_info_def)
next
  assume fl: "lat = PFloat x \<and> lon = PFloat y"
  have "add_maps_link R g =
           Inr (AList.update (KStr ''Google_Maps_Link'')
                  (PStr (''https://maps.google.com/?q=''
                         @ float_repr R (if ref_equals R g ''LatitudeRef'' ''S'' then f_neg R x else x)
                         @ '',''
                         @ float_repr R (if ref_equals R g ''LongitudeRef'' ''W'' then f_neg R y else y)))
                  g)"
    using lat lon fl
    by (simp add: add_maps_link_def has_key_def dict_get_def sign_corrected_def py_str_def)
  then show "extract_gps_info R G gps_info =
                AList.update (KStr ''Google_Maps_Link'')
                  (PStr (''https://maps.google.com/?q=''
                         @ float_repr R (if ref_equals R g ''LatitudeRef'' ''S'' then f_neg R x else x)
                         @ '',''
                         @ float_repr R (if ref_equals R g ''LongitudeRef'' ''W'' then f_neg R y else y)))
                  g"
    using mapping loop by (simp add: extract_gps_info_def)
qed

lemma south_east_loop:
  "gps_loop ideal_rt GPSTAGS
     [(KInt 1, PStr ''S''), (KInt 2, PTuple [PInt 10, PInt 30, PInt 0]),
      (KInt 3, PStr ''E''), (KInt 4, PTuple [PInt 20, PInt 0, PInt 0])]
     [KInt 1, KInt 2, KInt 3, KInt 4] []
   = ([(KStr ''GPSLatitudeRef'', PStr ''S''), (KStr ''Latitude'', PFloat (21 / 2)),
       (KStr ''LatitudeRef'', PStr ''S''), (KStr ''GPSLongitudeRef'', PStr ''E''),
       (KStr ''Longitude'', PFloat 20), (KStr ''LongitudeRef'', PStr ''E'')], None)"
  by (simp add: gps_tag_step_def resolve_GPSTAGS_examples dict_get_def ideal_convert_triple)

text \<open>
  The example of the specification: latitude 10.5 with reference \<open>'S'\<close> and longitude
  20.0 with reference \<open>'E'\<close> give a link that contains \<open>-10.5,20.0\<close>.
\<close>

theorem maps_link_from_signed_coordinates_witness:
  "map_of (extract_gps_info ideal_rt GPSTAGS
     (PDict [(KInt 1, PStr ''S''), (KInt 2, PTuple [PInt 10, PInt 30, PInt 0]),
             (KInt 3, PStr ''E''), (KInt 4, PTuple [PInt 20, PInt 0, PInt 0])]))
     (KStr ''Google_Maps_Link'')
   = Some (PStr ''https://maps.google.com/?q=-10.5,20.0'')
   \<and> contains ''-10.5,20.0'' ''https://maps.google.com/?q=-10.5,20.0''"
proof -
  let ?info = "[(KInt 1, PStr ''S''), (KInt 2, PTuple [PInt 10, PInt 30, PInt 0]),
                (KInt 3, PStr ''E''), (KInt 4, PTuple [PInt 20, PInt 0, PInt 0 :: rat pyval])]"
  let ?g = "[(KStr ''GPSLatitudeRef'', PStr ''S''), (KStr ''Latitude'', PFloat (21 / 2)),
       (KStr ''LatitudeRef'', PStr ''S''), (KStr ''GPSLongitudeRef'', PStr ''E''),
       (KStr ''Longitude'', PFloat 20), (KStr ''LongitudeRef'', PStr ''E'' :: rat pyval)]"
  have mapping: "as_mapping ideal_rt (PDict ?info) = Some ?info" by (simp add: as_mapping_def)
  have loop: "gps_loop ideal_rt GPSTAGS ?info (map fst ?info) [] = (?g, None)"
    using south_east_loop by simp
  have lat: "map_of ?g (KStr ''Latitude'') = Some (PFloat (21 / 2))" by simp
  have lon: "map_of ?g (KStr ''Longitude'') = Some (PFloat 20)" by simp
  have refs: "ref_equals ideal_rt ?g ''LatitudeRef'' ''S''" "\<not> ref_equals ideal_rt ?g ''LongitudeRef'' ''W''"
    by (simp_all add: ref_equals_def dict_get_def py_eq_str_def)
  have "map_of (extract_gps_info ideal_rt GPSTAGS (PDict ?info)) (KStr ''Google_Maps_Link'')
          = Some (PStr ''https://maps.google.com/?q=-10.5,20.0'')"
    using maps_link_from_signed_coordinates [OF mapping loop lat lon, of _ _ _ _ "21 / 2" 20] refs
    by (simp add: rat_repr_examples)
  moreover have "contains ''-10.5,20.0'' ''https://maps.google.com/?q=-10.5,20.0''"
    by simp
  ultimately show ?thesis by blast
qed

text \<open>
  Claim C3 as stated fails: with both coordinates derived and an altitude that
  \<open>float()\<close> rejects (a pair of numerator and denominator), the exception ends the
  function and no link is stored.
\<close>

theorem maps_link_counterexample:
  "map_of (extract_gps_info ideal_rt GPSTAGS
     (PDict [(KInt 1, PStr ''S''), (KInt 2, PTuple [PInt 10, PInt 30, PInt 0]),
             (KInt 3, PStr ''E''), (KInt 4, PTuple [PInt 20, PInt 0, PInt 0]),
             (KInt 6, PTuple [PInt 5, PInt 1])])) (KStr ''Latitude'') = Some (PFloat (21 / 2))
   \<and> map_of (extract_gps_info ideal_rt GPSTAGS
     (PDict [(KInt 1, PStr ''S''), (KInt 2, PTuple [PInt 10, PInt 30, PInt 0]),
             (KInt 3, PStr ''E''), (KInt 4, PTuple [PInt 20, PInt 0, PInt 0]),
             (KInt 6, PTuple [PInt 5, PInt 1])])) (KStr ''Longitude'') = Some (PFloat 20)
   \<and> map_of (extract_gps_info ideal_rt GPSTAGS
     (PDict [(KInt 1, PStr ''S''), (KInt 2, PTuple [PInt 10, PInt 30, PInt 0]),
             (KInt 3, PStr ''E''), (KInt 4, PTuple [PInt 20, PInt 0, PInt 0]),
             (KInt 6, PTuple [PInt 5, PInt 1])])) (KStr ''Google_Maps_Link'') = None"
proof -
  have "extract_gps_info ideal_rt GPSTAGS
     (PDict [(KInt 1, PStr ''S''), (KInt 2, PTuple [PInt 10, PInt 30, PInt 0]),
             (KInt 3, PStr ''E''), (KInt 4, PTuple [PInt 20, PInt 0, PInt 0]),
             (KInt 6, PTuple [PInt 5, PInt 1])])
     = [(KStr ''GPSLatitudeRef'', PStr ''S''), (KStr ''Latitude'', PFloat (21 / 2)),
       (KStr ''LatitudeRef'', PStr ''S''), (KStr ''GPSLongitudeRef'', PStr ''E''),
       (KStr ''Longitude'', PFloat 20), (KStr ''LongitudeRef'', PStr ''E''),
       (KStr ''Error'', PStr (exc_str ideal_rt (BadFloat (PTuple [PInt 5, PInt 1]))))]"
    by (simp add: extract_gps_info_def as_mapping_def gps_tag_step_def resolve_GPSTAGS_examples
          dict_get_def ideal_convert_triple)
  then show ?thesis by simp
qed




section \<open>Properties of the extraction steps\<close>

lemma metadata_set_category [simp]:
  "metadata (set_category name payload self) = AList.update (KStr name) payload (metadata self)"
  by (simp add: set_category_def)

lemma image_path_set_category [simp]:
  "image_path (set_category name payload self) = image_path self"
  by (simp add: set_category_def)

lemma fresh_extractor [simp]:
  "image_path (PhotoMetadataExtractor path) = path" "metadata (PhotoMetadataExtractor path) = []"
  by (simp_all add: PhotoMetadataExtractor_def)

lemma image_path_basic [simp]: "image_path (extract_basic_info R E self) = image_path self"
  by (simp add: extract_basic_info_def split: sum.splits)

lemma image_path_exif [simp]: "image_path (extract_exif_data R T G E self) = image_path self"
  by (simp add: extract_exif_data_def split: sum.splits)

lemma image_path_heic [simp]: "image_path (extract_heic_metadata E self) = image_path self"
  by (simp add: extract_heic_metadata_def split: sum.splits)

lemma image_path_file [simp]: "image_path (extract_file_metadata E self) = image_path self"
  by (simp add: extract_file_metadata_def split: sum.splits)

lemma metadata_basic:
  "metadata (extract_basic_info R E self) =
     AList.update (KStr ''Basic_Info'') (stored (basic_info_body R E (image_path self))) (metadata self)"
  by (simp add: extract_basic_info_def stored_def split: sum.splits)

lemma metadata_exif:
  "metadata (extract_exif_data R T G E self) =
     AList.update (KStr ''EXIF_Data'') (stored (exif_data_body R T G E (image_path self))) (metadata self)"
  by (simp add: extract_exif_data_def stored_def split: sum.splits)

lemma metadata_heic:
  "metadata (extract_heic_metadata E self) =
     (if is_heic_path (image_path self)
      then AList.update (KStr ''HEIC_Metadata'') (stored (heic_metadata_body E (image_path self))) (metadata self)
      else metadata self)"
  by (simp add: extract_heic_metadata_def stored_def split: sum.splits)

lemma metadata_file:
  "metadata (extract_file_metadata E self) =
     AList.update (KStr ''File_System_Data'') (stored (file_metadata_body E (image_path self))) (metadata self)"
  by (simp add: extract_file_metadata_def stored_def split: sum.splits)

lemma metadata_run_steps:
  "metadata (run_steps R T G E (PhotoMetadataExtractor path)) =
     (if is_heic_path path
      then [(KStr ''Basic_Info'', stored (basic_info_body R E path)),
            (KStr ''EXIF_Data'', stored (exif_data_body R T G E path)),
            (KStr ''HEIC_Metadata'', stored (heic_metadata_body E path)),
            (KStr ''File_System_Data'', stored (file_metadata_body E path))]
      else [(KStr ''Basic_Info'', stored (basic_info_body R E path)),
            (KStr ''EXIF_Data'', stored (exif_data_body R T G E path)),
            (KStr ''File_System_Data'', stored (file_metadata_body E path))])"
  by (simp add: run_steps_def metadata_basic metadata_exif metadata_heic metadata_file
        PhotoMetadataExtractor_def)

lemma extract_all_printed:
  "py_print E (banner (image_path self)) = Inr line \<Longrightarrow>
     fst (extract_all R T G E self) = run_steps R T G E self"
  by (simp add: extract_all_def Let_def split: sum.splits)

lemma extract_all_returns:
  "snd (extract_all R T G E self) = Inr md \<Longrightarrow>
     fst (extract_all R T G E self) = run_steps R T G E self \<and> md = metadata (run_steps R T G E self)"
  by (auto simp: extract_all_def Let_def split: sum.splits)

lemma heic_path_examples:
  "is_heic_path ''photo.jpg'' = False" "is_heic_path ''IMG_0001.HEIC'' = True"
  "is_heic_path ''scan.heif'' = True" "is_heic_path ''heic'' = False"
  by code_simp+

text \<open>
  Claim C1, as the code has it. When \<open>extract_all\<close>, called on a fresh extractor,
  returns, the record it returns is the record of the object, and its keys are
  \<open>Basic_Info\<close>, \<open>EXIF_Data\<close> and \<open>File_System_Data\<close>, with \<open>HEIC_Metadata\<close> between the
  last two exactly when the path ends in \<open>.heic\<close> or \<open>.heif\<close> (letter case ignored), and
  no other key. Each category holds what its step extracted, and the payload
  \<open>{'Error': message}\<close> when the step failed.
\<close>

theorem extract_all_categories:
  assumes "snd (extract_all R T G E (PhotoMetadataExtractor path)) = Inr md"
  shows "metadata (fst (extract_all R T G E (PhotoMetadataExtractor path))) = md
       \<and> map fst md =
           (if is_heic_path path
            then [KStr ''Basic_Info'', KStr ''EXIF_Data'', KStr ''HEIC_Metadata'', KStr ''File_System_Data'']
            else [KStr ''Basic_Info'', KStr ''EXIF_Data'', KStr ''File_System_Data''])
       \<and> map_of md (KStr ''Basic_Info'')
           = Some (case basic_info_body R E path of Inr payload \<Rightarrow> payload
                                                  | Inl msg \<Rightarrow> PDict [(KStr ''Error'', PStr msg)])
       \<and> map_of md (KStr ''EXIF_Data'')
           = Some (case exif_data_body R T G E path of Inr payload \<Rightarrow> payload
                                                     | Inl msg \<Rightarrow> PDict [(KStr ''Error'', PStr msg)])
       \<and> map_of md (KStr ''HEIC_Metadata'')
           = (if is_heic_path path
              then Some (case heic_metadata_body E path of Inr payload \<Rightarrow> payload
                                                         | Inl msg \<Rightarrow> PDict [(KStr ''Error'', PStr msg)])
              else None)
       \<and> map_of md (KStr ''File_System_Data'')
           = Some (case file_metadata_body E path of Inr payload \<Rightarrow> payload
                                                   | Inl msg \<Rightarrow> PDict [(KStr ''Error'', PStr msg)])"
  using extract_all_returns [OF assms]
  by (simp add: metadata_run_steps stored_def error_payload_def split: sum.splits)

lemma sample_env_fields [simp]:
  "image_open (sample_env opened) p = opened"
  "getsize (sample_env opened) p = Inr 1024"
  "read_heif (sample_env opened) p = Inl ''not a HEIF file''"
  "os_stat (sample_env opened) p = Inr sample_stat"
  "open_write (sample_env opened) p = None"
  "file_write (sample_env opened) p sm = None"
  "stdout_write (sample_env opened) line = None"
  by (simp_all add: sample_env_def)

lemma sample_print [simp]: "py_print (sample_env opened) line = Inr line"
  by (simp add: py_print_def)

lemma extract_all_displayed:
  "py_print E (banner (image_path self)) = Inr line \<Longrightarrow>
   display_metadata R E (run_steps R T G E self) = Inr lines \<Longrightarrow>
     snd (extract_all R T G E self) = Inr (metadata (run_steps R T G E self))"
  by (simp add: extract_all_def Let_def)


lemma sample_stat_payload:
  "file_metadata_body (sample_env opened) p =
     Inr (PDict [(KStr ''Creation_Time'', PFloat 1700000000),
                 (KStr ''Modification_Time'', PFloat 1700000000),
                 (KStr ''Access_Time'', PFloat 1700000000),
                 (KStr ''File_Permissions'', PInt 33188),
                 (KStr ''File_Inode'', PInt 42)])"
  by (simp add: file_metadata_body_def sample_stat_def)

lemma sample_heic_body: "heic_metadata_body (sample_env opened) p = Inl ''not a HEIF file''"
  by (simp add: heic_metadata_body_def)

lemma basename_examples:
  "basename ''photo.jpg'' = ''photo.jpg''" "basename ''/home/user/photo.jpg'' = ''photo.jpg''"
  by code_simp+

lemma ideal_str_small_int: "\<bar>i\<bar> < 1000000 \<Longrightarrow> py_str ideal_rt (PInt i) = Inr (str_int i)"
  by (simp add: py_str_def ideal_str_def int_printable_small)

lemma sample_basic_body:
  "basic_info_body ideal_rt (sample_env (Inr (sample_image exif))) ''photo.jpg'' =
     Inr (PDict [(KStr ''Format'', PStr ''JPEG''),
                 (KStr ''Mode'', PStr ''RGB''),
                 (KStr ''Size'', PTuple [PInt 640, PInt 480]),
                 (KStr ''Width'', PInt 640),
                 (KStr ''Height'', PInt 480),
                 (KStr ''Filename'', PStr ''photo.jpg''),
                 (KStr ''File_Size'', PStr ''1024 bytes'')])"
  by (simp add: basic_info_body_def sample_image_def ideal_str_small_int str_int_examples
        basename_examples)

lemma sample_no_exif_body:
  "exif_data_body ideal_rt TAGS GPSTAGS (sample_env (Inr (sample_image (Inr None)))) p =
     Inr (PDict [(KStr ''Info'', PStr ''No EXIF data found'')])"
  by (simp add: exif_data_body_def sample_image_def)

lemma sample_failed_bodies:
  "basic_info_body ideal_rt (sample_env (Inl msg)) p = Inl msg"
  "exif_data_body ideal_rt TAGS GPSTAGS (sample_env (Inl msg)) p = Inl msg"
  by (simp_all add: basic_info_body_def exif_data_body_def)

lemma contains_examples:
  "contains ''GPS'' ''Error'' = False" "contains ''Location'' ''Error'' = False"
  "contains ''GPS'' ''Info'' = False" "contains ''Location'' ''Info'' = False"
  "contains ''GPS'' ''Format'' = False" "contains ''Location'' ''Format'' = False"
  "contains ''GPS'' ''Mode'' = False" "contains ''Location'' ''Mode'' = False"
  "contains ''GPS'' ''Size'' = False" "contains ''Location'' ''Size'' = False"
  "contains ''GPS'' ''Width'' = False" "contains ''Location'' ''Width'' = False"
  "contains ''GPS'' ''Height'' = False" "contains ''Location'' ''Height'' = False"
  "contains ''GPS'' ''Filename'' = False" "contains ''Location'' ''Filename'' = False"
  "contains ''GPS'' ''File_Size'' = False" "contains ''Location'' ''File_Size'' = False"
  "contains ''GPS'' ''Creation_Time'' = False" "contains ''Location'' ''Creation_Time'' = False"
  "contains ''GPS'' ''Modification_Time'' = False" "contains ''Location'' ''Modification_Time'' = False"
  "contains ''GPS'' ''Access_Time'' = False" "contains ''Location'' ''Access_Time'' = False"
  "contains ''GPS'' ''File_Permissions'' = False" "contains ''Location'' ''File_Permissions'' = False"
  "contains ''GPS'' ''File_Inode'' = False" "contains ''Location'' ''File_Inode'' = False"
  "contains ''GPS'' ''GPSLatitude'' = True"
  by code_simp+

lemma sample_field_line:
  "k \<noteq> ''Google_Maps_Link'' \<Longrightarrow> contains ''GPS'' k = False \<Longrightarrow> contains ''Location'' k = False \<Longrightarrow>
   py_str R v = Inr s \<Longrightarrow> field_line R (KStr k) v = Inr (''  '' @ k @ '': '' @ s)"
  by (simp add: field_line_def)

lemma ideal_str_size: "py_str ideal_rt (PTuple [PInt 640, PInt 480]) = Inr (ideal_repr (PTuple [PInt 640, PInt 480]))"
  by (simp add: py_str_def ideal_str_def int_printable_small)

lemma sample_display_error:
  "display_payload ideal_rt (sample_env opened) (PDict [(KStr ''Error'', PStr msg)])
     = Inr [''  Error: '' @ msg]"
  by (simp add: display_payload_def sample_field_line contains_examples py_str_def)

lemma sample_display_info:
  "display_payload ideal_rt (sample_env opened) (PDict [(KStr ''Info'', PStr msg)])
     = Inr [''  Info: '' @ msg]"
  by (simp add: display_payload_def sample_field_line contains_examples py_str_def)

lemma sample_display_stat:
  "\<exists>lines. display_payload ideal_rt (sample_env opened)
     (PDict [(KStr ''Creation_Time'', PFloat 1700000000),
             (KStr ''Modification_Time'', PFloat 1700000000),
             (KStr ''Access_Time'', PFloat 1700000000),
             (KStr ''File_Permissions'', PInt 33188),
             (KStr ''File_Inode'', PInt 42)]) = Inr lines"
  by (simp add: display_payload_def sample_field_line contains_examples ideal_str_small_int
        py_str_def [of _ "PFloat x" for x])

lemma sample_display_basic:
  "\<exists>lines. display_payload ideal_rt (sample_env opened)
     (PDict [(KStr ''Format'', PStr ''JPEG''),
             (KStr ''Mode'', PStr ''RGB''),
             (KStr ''Size'', PTuple [PInt 640, PInt 480]),
             (KStr ''Width'', PInt 640),
             (KStr ''Height'', PInt 480),
             (KStr ''Filename'', PStr ''photo.jpg''),
             (KStr ''File_Size'', PStr ''1024 bytes'')]) = Inr lines"
  by (simp add: display_payload_def sample_field_line contains_examples ideal_str_small_int
        ideal_str_size py_str_def [of _ "PStr x" for x])

lemma display_categories_cons:
  "py_str R (pyval_of_key category) = Inr name \<Longrightarrow>
   display_payload R (sample_env opened) data = Inr body \<Longrightarrow>
   display_categories R (sample_env opened) rest = Inr lines \<Longrightarrow>
     \<exists>all. display_categories R (sample_env opened) ((category, data) # rest) = Inr all"
  by simp

lemma category_name: "py_str R (pyval_of_key (KStr name)) = Inr name"
  by (simp add: pyval_of_key_def py_str_def)

lemma sample_display_undecodable:
  "\<exists>lines. display_metadata ideal_rt (sample_env (Inl msg))
     (run_steps ideal_rt TAGS GPSTAGS (sample_env (Inl msg)) (PhotoMetadataExtractor ''IMG_0001.HEIC'')) = Inr lines"
proof -
  obtain l4 where l4: "display_payload ideal_rt (sample_env (Inl msg))
     (PDict [(KStr ''Creation_Time'', PFloat 1700000000),
             (KStr ''Modification_Time'', PFloat 1700000000),
             (KStr ''Access_Time'', PFloat 1700000000),
             (KStr ''File_Permissions'', PInt 33188),
             (KStr ''File_Inode'', PInt 42)]) = Inr l4"
    using sample_display_stat by blast
  show ?thesis
    by (simp add: display_metadata_def metadata_run_steps heic_path_examples stored_def
          sample_failed_bodies sample_heic_body sample_stat_payload error_payload_def
          sample_display_error category_name l4)
qed

lemma sample_display_jpeg:
  "\<exists>lines. display_metadata ideal_rt (sample_env (Inr (sample_image (Inr None))))
     (run_steps ideal_rt TAGS GPSTAGS (sample_env (Inr (sample_image (Inr None))))
        (PhotoMetadataExtractor ''photo.jpg'')) = Inr lines"
proof -
  obtain l1 where l1: "display_payload ideal_rt (sample_env (Inr (sample_image (Inr None))))
     (PDict [(KStr ''Format'', PStr ''JPEG''),
             (KStr ''Mode'', PStr ''RGB''),
             (KStr ''Size'', PTuple [PInt 640, PInt 480]),
             (KStr ''Width'', PInt 640),
             (KStr ''Height'', PInt 480),
             (KStr ''Filename'', PStr ''photo.jpg''),
             (KStr ''File_Size'', PStr ''1024 bytes'')]) = Inr l1"
    using sample_display_basic by blast
  obtain l4 where l4: "display_payload ideal_rt (sample_env (Inr (sample_image (Inr None))))
     (PDict [(KStr ''Creation_Time'', PFloat 1700000000),
             (KStr ''Modification_Time'', PFloat 1700000000),
             (KStr ''Access_Time'', PFloat 1700000000),
             (KStr ''File_Permissions'', PInt 33188),
             (KStr ''File_Inode'', PInt 42)]) = Inr l4"
    using sample_display_stat by blast
  show ?thesis
    by (simp add: display_metadata_def metadata_run_steps heic_path_examples stored_def
          sample_basic_body sample_no_exif_body sample_stat_payload
          sample_display_info category_name l1 l4)
qed

lemma undecodable_heic_run:
  "snd (extract_all ideal_rt TAGS GPSTAGS (sample_env (Inl ''cannot identify image file''))
         (PhotoMetadataExtractor ''IMG_0001.HEIC'')) =
     Inr [(KStr ''Basic_Info'', PDict [(KStr ''Error'', PStr ''cannot identify image file'')]),
          (KStr ''EXIF_Data'', PDict [(KStr ''Error'', PStr ''cannot identify image file'')]),
          (KStr ''HEIC_Metadata'', PDict [(KStr ''Error'', PStr ''not a HEIF file'')]),
          (KStr ''File_System_Data'',
           PDict [(KStr ''Creation_Time'', PFloat 1700000000),
                  (KStr ''Modification_Time'', PFloat 1700000000),
                  (KStr ''Access_Time'', PFloat 1700000000),
                  (KStr ''File_Permissions'', PInt 33188),
                  (KStr ''File_Inode'', PInt 42)])]"
proof -
  obtain lines where "display_metadata ideal_rt (sample_env (Inl ''cannot identify image file''))
     (run_steps ideal_rt TAGS GPSTAGS (sample_env (Inl ''cannot identify image file''))
        (PhotoMetadataExtractor ''IMG_0001.HEIC'')) = Inr lines"
    using sample_display_undecodable by blast
  then show ?thesis
    by (simp add: extract_all_def Let_def metadata_run_steps heic_path_examples stored_def
          sample_failed_bodies sample_heic_body sample_stat_payload error_payload_def)
qed

lemma readable_jpeg_run:
  "snd (extract_all ideal_rt TAGS GPSTAGS (sample_env (Inr (sample_image (Inr None))))
         (PhotoMetadataExtractor ''photo.jpg'')) =
     Inr [(KStr ''Basic_Info'',
           PDict [(KStr ''Format'', PStr ''JPEG''),
                  (KStr ''Mode'', PStr ''RGB''),
                  (KStr ''Size'', PTuple [PInt 640, PInt 480]),
                  (KStr ''Width'', PInt 640),
                  (KStr ''Height'', PInt 480),
                  (KStr ''Filename'', PStr ''photo.jpg''),
                  (KStr ''File_Size'', PStr ''1024 bytes'')]),
          (KStr ''EXIF_Data'', PDict [(KStr ''Info'', PStr ''No EXIF data found'')]),
          (KStr ''File_System_Data'',
           PDict [(KStr ''Creation_Time'', PFloat 1700000000),
                  (KStr ''Modification_Time'', PFloat 1700000000),
                  (KStr ''Access_Time'', PFloat 1700000000),
                  (KStr ''File_Permissions'', PInt 33188),
                  (KStr ''File_Inode'', PInt 42)])]"
proof -
  obtain lines where "display_metadata ideal_rt (sample_env (Inr (sample_image (Inr None))))
     (run_steps ideal_rt TAGS GPSTAGS (sample_env (Inr (sample_image (Inr None))))
        (PhotoMetadataExtractor ''photo.jpg'')) = Inr lines"
    using sample_display_jpeg by blast
  then show ?thesis
    by (simp add: extract_all_def Let_def metadata_run_steps heic_path_examples stored_def
          sample_basic_body sample_no_exif_body sample_stat_payload)
qed

text \<open>
  A file named \<open>IMG_0001.HEIC\<close> that no decoder can read: \<open>extract_all\<close> returns, the
  four categories are present, three of them with an error payload, the file system
  data as extracted.
\<close>

theorem extract_all_categories_witness:
  "snd (extract_all ideal_rt TAGS GPSTAGS (sample_env (Inl ''cannot identify image file''))
         (PhotoMetadataExtractor ''IMG_0001.HEIC'')) =
     Inr [(KStr ''Basic_Info'', PDict [(KStr ''Error'', PStr ''cannot identify image file'')]),
          (KStr ''EXIF_Data'', PDict [(KStr ''Error'', PStr ''cannot identify image file'')]),
          (KStr ''HEIC_Metadata'', PDict [(KStr ''Error'', PStr ''not a HEIF file'')]),
          (KStr ''File_System_Data'',
           PDict [(KStr ''Creation_Time'', PFloat 1700000000),
                  (KStr ''Modification_Time'', PFloat 1700000000),
                  (KStr ''Access_Time'', PFloat 1700000000),
                  (KStr ''File_Permissions'', PInt 33188),
                  (KStr ''File_Inode'', PInt 42)])]
   \<and> is_heic_path ''IMG_0001.HEIC''
   \<and> map fst (metadata (fst (extract_all ideal_rt TAGS GPSTAGS
         (sample_env (Inl ''cannot identify image file'')) (PhotoMetadataExtractor ''IMG_0001.HEIC''))))
     = [KStr ''Basic_Info'', KStr ''EXIF_Data'', KStr ''HEIC_Metadata'', KStr ''File_System_Data'']
   \<and> map_of (metadata (fst (extract_all ideal_rt TAGS GPSTAGS
         (sample_env (Inl ''cannot identify image file'')) (PhotoMetadataExtractor ''IMG_0001.HEIC''))))
       (KStr ''HEIC_Metadata'')
     = Some (PDict [(KStr ''Error'', PStr ''not a HEIF file'')])"
  using extract_all_categories [OF undecodable_heic_run] undecodable_heic_run
  by (simp add: heic_path_examples)

text \<open>
  Claim C1 as stated fails: for a readable JPEG file named \<open>photo.jpg\<close>, \<open>extract_all\<close>
  returns a record of three categories, with no key \<open>HEIC_Metadata\<close>.
\<close>

theorem extract_all_categories_counterexample:
  "snd (extract_all ideal_rt TAGS GPSTAGS (sample_env (Inr (sample_image (Inr None))))
         (PhotoMetadataExtractor ''photo.jpg'')) =
     Inr [(KStr ''Basic_Info'',
           PDict [(KStr ''Format'', PStr ''JPEG''),
                  (KStr ''Mode'', PStr ''RGB''),
                  (KStr ''Size'', PTuple [PInt 640, PInt 480]),
                  (KStr ''Width'', PInt 640),
                  (KStr ''Height'', PInt 480),
                  (KStr ''Filename'', PStr ''photo.jpg''),
                  (KStr ''File_Size'', PStr ''1024 bytes'')]),
          (KStr ''EXIF_Data'', PDict [(KStr ''Info'', PStr ''No EXIF data found'')]),
          (KStr ''File_System_Data'',
           PDict [(KStr ''Creation_Time'', PFloat 1700000000),
                  (KStr ''Modification_Time'', PFloat 1700000000),
                  (KStr ''Access_Time'', PFloat 1700000000),
                  (KStr ''File_Permissions'', PInt 33188),
                  (KStr ''File_Inode'', PInt 42)])]
   \<and> map_of (metadata (fst (extract_all ideal_rt TAGS GPSTAGS
         (sample_env (Inr (sample_image (Inr None)))) (PhotoMetadataExtractor ''photo.jpg''))))
       (KStr ''HEIC_Metadata'') = None"
  using readable_jpeg_run
  by (simp add: extract_all_printed [where line = "banner ''photo.jpg''"] metadata_run_steps
        heic_path_examples)



text \<open>
  Claim C6. For every path that does not end in \<open>.heic\<close> or \<open>.heif\<close> (letter case
  ignored), \<open>extract_heic_metadata\<close> returns the object as it was: no key
  \<open>HEIC_Metadata\<close> is created and no other category changes.
\<close>

theorem heic_step_skips_other_extensions:
  assumes "\<not> is_heic_path (image_path self)"
  shows "extract_heic_metadata E self = self"
  using assms by (simp add: extract_heic_metadata_def)

text \<open>
  On \<open>photo.jpg\<close>, with a record that holds one category: the object comes back as it
  was, and the record has no key \<open>HEIC_Metadata\<close>.
\<close>

theorem heic_step_skips_other_extensions_witness:
  "\<not> is_heic_path ''photo.jpg''
   \<and> extract_heic_metadata (sample_env (Inr (sample_image (Inr None))))
       \<lparr>image_path = ''photo.jpg'', metadata = [(KStr ''Basic_Info'', PDict [(KStr ''Mode'', PStr ''RGB'')])]\<rparr>
     = \<lparr>image_path = ''photo.jpg'', metadata = [(KStr ''Basic_Info'', PDict [(KStr ''Mode'', PStr ''RGB'')])]\<rparr>
   \<and> map_of (metadata (extract_heic_metadata (sample_env (Inr (sample_image (Inr None))))
       \<lparr>image_path = ''photo.jpg'', metadata = [(KStr ''Basic_Info'', PDict [(KStr ''Mode'', PStr ''RGB'')])]\<rparr>))
       (KStr ''HEIC_Metadata'') = None"
proof -
  have h: "\<not> is_heic_path (image_path
       \<lparr>image_path = ''photo.jpg'', metadata = [(KStr ''Basic_Info'', PDict [(KStr ''Mode'', PStr ''RGB'' :: rat pyval)])]\<rparr>)"
    by (simp add: heic_path_examples)
  from heic_step_skips_other_extensions [OF h, of "sample_env (Inr (sample_image (Inr None)))"] h
  show ?thesis by simp
qed

text \<open>
  Claim C9. When the image opens and the EXIF reader returns an empty mapping,
  \<open>extract_exif_data\<close> stores \<open>{'Info': 'No EXIF data found'}\<close> under \<open>EXIF_Data\<close>, the
  payload it stores when the reader returns \<open>None\<close>.
\<close>

theorem empty_exif_is_no_exif:
  assumes "image_open E (image_path self) = Inr img"
      and "img_getexif img = Inr exif"
      and "exif = Some [] \<or> exif = None"
  shows "extract_exif_data R T G E self =
           set_category ''EXIF_Data'' (PDict [(KStr ''Info'', PStr ''No EXIF data found'')]) self"
  using assms by (auto simp: extract_exif_data_def exif_data_body_def)

text \<open>
  The readable JPEG file with an empty EXIF mapping, and with none: the same record.
\<close>

theorem empty_exif_is_no_exif_witness:
  "map_of (metadata (extract_exif_data ideal_rt TAGS GPSTAGS (sample_env (Inr (sample_image (Inr (Some [])))))
       (PhotoMetadataExtractor ''photo.jpg''))) (KStr ''EXIF_Data'')
     = Some (PDict [(KStr ''Info'', PStr ''No EXIF data found'')])
   \<and> extract_exif_data ideal_rt TAGS GPSTAGS (sample_env (Inr (sample_image (Inr (Some [])))))
       (PhotoMetadataExtractor ''photo.jpg'')
     = extract_exif_data ideal_rt TAGS GPSTAGS (sample_env (Inr (sample_image (Inr None))))
       (PhotoMetadataExtractor ''photo.jpg'')"
proof -
  have o1: "image_open (sample_env (Inr (sample_image (Inr (Some []))))) (image_path (PhotoMetadataExtractor ''photo.jpg''))
              = Inr (sample_image (Inr (Some [])))"
    by simp
  have g1: "img_getexif (sample_image (Inr (Some []))) = Inr (Some [])"
    by (simp add: sample_image_def)
  have o2: "image_open (sample_env (Inr (sample_image (Inr None)))) (image_path (PhotoMetadataExtractor ''photo.jpg''))
              = Inr (sample_image (Inr None))"
    by simp
  have g2: "img_getexif (sample_image (Inr None)) = Inr None"
    by (simp add: sample_image_def)
  from empty_exif_is_no_exif [OF o1 g1, of ideal_rt TAGS GPSTAGS]
       empty_exif_is_no_exif [OF o2 g2, of ideal_rt TAGS GPSTAGS]
  show ?thesis by (simp add: PhotoMetadataExtractor_def)
qed

section \<open>The default output path\<close>

lemma rfind_ge: "- 1 \<le> rfind c xs"
  by (induction xs) (simp_all add: Let_def)

lemma rfind_neg_iff: "rfind c xs < 0 \<longleftrightarrow> c \<notin> set xs"
  by (induction xs) (auto simp: Let_def)

lemma rfind_spec:
  "0 \<le> rfind c xs \<Longrightarrow>
     nat (rfind c xs) < length xs \<and> xs ! nat (rfind c xs) = c
     \<and> c \<notin> set (drop (Suc (nat (rfind c xs))) xs)"
proof (induction xs)
  case Nil
  then show ?case by simp
next
  case (Cons x xs)
  show ?case
  proof (cases "0 \<le> rfind c xs")
    case True
    then have "rfind c (x # xs) = rfind c xs + 1" by (simp add: Let_def)
    moreover have "nat (rfind c xs + 1) = Suc (nat (rfind c xs))" using True by simp
    ultimately show ?thesis using Cons.IH [OF True] by simp
  next
    case False
    then have "c \<notin> set xs" using rfind_neg_iff [of c xs] by simp
    moreover have "x = c" using Cons.prems False by (simp add: Let_def split: if_splits)
    moreover have "rfind c (x # xs) = 0" using False \<open>x = c\<close> by (simp add: Let_def)
    ultimately show ?thesis by simp
  qed
qed

lemma rfind_last: "i < length xs \<Longrightarrow> xs ! i = c \<Longrightarrow> int i \<le> rfind c xs"
proof (rule ccontr)
  assume i: "i < length xs" and c: "xs ! i = c" and n: "\<not> int i \<le> rfind c xs"
  have "c \<in> set xs" using i c by auto
  then have r: "0 \<le> rfind c xs" using rfind_neg_iff [of c xs] by simp
  from rfind_spec [OF r] have no: "c \<notin> set (drop (Suc (nat (rfind c xs))) xs)" by simp
  have "Suc (nat (rfind c xs)) \<le> i" using n r by simp
  then have "xs ! i \<in> set (drop (Suc (nat (rfind c xs))) xs)"
    using i by (auto simp: in_set_conv_nth intro!: exI [of _ "i - Suc (nat (rfind c xs))"])
  then show False using no c by simp
qed

declare skip_leading_dots.simps [simp del]

lemma skip_leading_dots_iff:
  "skip_leading_dots p e i j \<longleftrightarrow> (\<exists>k. i \<le> k \<and> k < j \<and> p ! k \<noteq> e)"
proof (induction p e i j rule: skip_leading_dots.induct)
  case (1 p e i j)
  show ?case
  proof (cases "i < j")
    case False
    then show ?thesis by (subst skip_leading_dots.simps) auto
  next
    case True
    show ?thesis
    proof (cases "p ! i \<noteq> e")
      case ne: True
      then show ?thesis using True by (subst skip_leading_dots.simps) auto
    next
      case False
      then have eq: "p ! i = e" by simp
      have "skip_leading_dots p e i j = skip_leading_dots p e (Suc i) j"
        using True eq by (subst skip_leading_dots.simps) simp
      also have "\<dots> \<longleftrightarrow> (\<exists>k. Suc i \<le> k \<and> k < j \<and> p ! k \<noteq> e)"
        using 1 [OF True] eq by simp
      also have "\<dots> \<longleftrightarrow> (\<exists>k. i \<le> k \<and> k < j \<and> p ! k \<noteq> e)"
        using eq by (metis Suc_leD Suc_leI le_neq_implies_less)
      finally show ?thesis .
    qed
  qed
qed

lemma splitext_append: "fst (splitext p) @ snd (splitext p) = p"
  by (simp add: splitext_def splitext_generic_def Let_def)

lemma splitext_ext_shape:
  assumes "snd (splitext p) \<noteq> []"
  shows "hd (snd (splitext p)) = CHR ''.'' \<and> CHR ''.'' \<notin> set (tl (snd (splitext p)))
       \<and> CHR ''/'' \<notin> set (snd (splitext p))"
proof -
  let ?s = "rfind CHR ''/'' p" and ?d = "rfind CHR ''.'' p"
  from assms have cond: "?d > ?s" and ext: "snd (splitext p) = drop (nat ?d) p"
    by (auto simp: splitext_def splitext_generic_def Let_def split: if_splits)
  have d0: "0 \<le> ?d" using cond rfind_ge [of "CHR ''/''" p] by simp
  from rfind_spec [OF d0] have dl: "nat ?d < length p" and dc: "p ! nat ?d = CHR ''.''"
    and dn: "CHR ''.'' \<notin> set (drop (Suc (nat ?d)) p)" by simp_all
  have dr: "drop (nat ?d) p = CHR ''.'' # drop (Suc (nat ?d)) p"
    using dl dc by (metis Cons_nth_drop_Suc)
  have "CHR ''/'' \<notin> set (drop (nat ?d) p)"
  proof (cases "0 \<le> ?s")
    case True
    from rfind_spec [OF True] have "CHR ''/'' \<notin> set (drop (Suc (nat ?s)) p)" by simp
    moreover have "Suc (nat ?s) \<le> nat ?d" using cond True by simp
    ultimately show ?thesis by (metis set_drop_subset_set_drop subsetD)
  next
    case False
    then have "CHR ''/'' \<notin> set p" using rfind_neg_iff [of "CHR ''/''" p] by simp
    then show ?thesis by (meson in_set_dropD)
  qed
  then show ?thesis using ext dr dn by simp
qed

lemma splitext_ext_iff:
  "snd (splitext p) \<noteq> [] \<longleftrightarrow>
     (\<exists>u v. basename p = u @ CHR ''.'' # v \<and> \<not> set u \<subseteq> {CHR ''.''})"
proof
  let ?s = "rfind CHR ''/'' p" and ?d = "rfind CHR ''.'' p"
  let ?b = "nat (?s + 1)"
  assume "snd (splitext p) \<noteq> []"
  then have cond: "?d > ?s" and sk: "skip_leading_dots p CHR ''.'' ?b (nat ?d)"
    by (auto simp: splitext_def splitext_generic_def Let_def split: if_splits)
  from sk obtain k where k: "?b \<le> k" "k < nat ?d" "p ! k \<noteq> CHR ''.''"
    using skip_leading_dots_iff by blast
  have d0: "0 \<le> ?d" using cond rfind_ge [of "CHR ''/''" p] by simp
  from rfind_spec [OF d0] have dl: "nat ?d < length p" and dc: "p ! nat ?d = CHR ''.''" by simp_all
  have bd: "?b \<le> nat ?d" using k by simp
  let ?n = "nat ?d - ?b"
  have len: "?n < length (drop ?b p)" using dl bd by simp
  have nth: "drop ?b p ! ?n = CHR ''.''" using dl bd dc by simp
  have split: "drop ?b p = take ?n (drop ?b p) @ CHR ''.'' # drop (Suc ?n) (drop ?b p)"
    using id_take_nth_drop [OF len] nth by simp
  have "p ! k \<in> set (take ?n (drop ?b p))"
  proof -
    have "k - ?b < ?n" using k by simp
    moreover have "take ?n (drop ?b p) ! (k - ?b) = p ! k" using k dl by simp
    moreover have "length (take ?n (drop ?b p)) = ?n" using len by simp
    ultimately show ?thesis by (metis nth_mem)
  qed
  then have "\<not> set (take ?n (drop ?b p)) \<subseteq> {CHR ''.''}" using k(3) by auto
  then show "\<exists>u v. basename p = u @ CHR ''.'' # v \<and> \<not> set u \<subseteq> {CHR ''.''}"
    using split unfolding basename_def by blast
next
  let ?s = "rfind CHR ''/'' p" and ?d = "rfind CHR ''.'' p"
  let ?b = "nat (?s + 1)"
  assume "\<exists>u v. basename p = u @ CHR ''.'' # v \<and> \<not> set u \<subseteq> {CHR ''.''}"
  then obtain u v x where b: "drop ?b p = u @ CHR ''.'' # v" and x: "x \<in> set u" "x \<noteq> CHR ''.''"
    unfolding basename_def by auto
  from x obtain i where i: "i < length u" "u ! i = x" by (metis in_set_conv_nth)
  have p: "p = take ?b p @ u @ CHR ''.'' # v" using b by (metis append_take_drop_id)
  have bl: "?b \<le> length p"
  proof (rule ccontr)
    assume "\<not> ?b \<le> length p"
    then have "drop ?b p = []" by simp
    then show False using b by simp
  qed
  have lt: "length (take ?b p) = ?b" using bl by simp
  have dot: "p ! (?b + length u) = CHR ''.''"
  proof -
    have "(take ?b p @ u @ CHR ''.'' # v) ! (?b + length u) = CHR ''.''"
      using lt by (simp add: nth_append)
    then show ?thesis using p by simp
  qed
  have dlen: "?b + length u < length p"
  proof -
    have "length p = ?b + length u + Suc (length v)"
      using arg_cong [OF p, of length] lt by simp
    then show ?thesis by simp
  qed
  have le: "int (?b + length u) \<le> ?d" using rfind_last [OF dlen dot] .
  have xk: "p ! (?b + i) = x"
  proof -
    have "(take ?b p @ u @ CHR ''.'' # v) ! (?b + i) = x"
      using lt i by (simp add: nth_append)
    then show ?thesis using p by simp
  qed
  have s1: "- 1 \<le> ?s" by (rule rfind_ge)
  have cond: "?d > ?s" using le i s1 by simp
  have "?b + i < nat ?d" using le i(1) by linarith
  then have "?b \<le> ?b + i \<and> ?b + i < nat ?d \<and> p ! (?b + i) \<noteq> CHR ''.''"
    using xk x by simp
  then have "skip_leading_dots p CHR ''.'' ?b (nat ?d)"
    using skip_leading_dots_iff by blast
  then show "snd (splitext p) \<noteq> []"
    using cond rfind_spec [of "CHR ''.''" p] s1
    by (simp add: splitext_def splitext_generic_def Let_def)
qed

lemma save_to_json_default:
  "save_to_json R E self None = save_to_json R E self (Some (default_output_file (image_path self)))"
  by (simp add: save_to_json_def)

lemma save_to_json_written_path:
  "written (save_to_json R E self (Some f)) = Some (out, sm) \<Longrightarrow> out = f"
  by (auto simp: save_to_json_def Let_def split: sum.splits)

text \<open>
  Claim C8. Called without an output path, \<open>save_to_json\<close> does what it does when
  called with the path \<open>stem + '_metadata.json'\<close>, where \<open>(stem, ext)\<close> is
  \<open>os.path.splitext\<close> of the input path; a file it writes has that path. The stem is
  the input path without its extension: \<open>stem + ext\<close> is the input path; the extension
  is not empty exactly when the last component of the path has a dot after a character
  that is not a dot; and then it starts with a dot and has no other dot and no
  separator.
\<close>

theorem default_output_strips_extension:
  fixes self :: "'f extractor"
  defines "stem \<equiv> fst (splitext (image_path self))"
      and "ext \<equiv> snd (splitext (image_path self))"
  shows "save_to_json R E self None = save_to_json R E self (Some (stem @ ''_metadata.json''))
       \<and> (\<forall>out sm. written (save_to_json R E self None) = Some (out, sm)
            \<longrightarrow> out = stem @ ''_metadata.json'')
       \<and> stem @ ext = image_path self
       \<and> (ext \<noteq> [] \<longleftrightarrow>
            (\<exists>u v. basename (image_path self) = u @ CHR ''.'' # v \<and> \<not> set u \<subseteq> {CHR ''.''}))
       \<and> (ext \<noteq> [] \<longrightarrow>
            hd ext = CHR ''.'' \<and> CHR ''.'' \<notin> set (tl ext) \<and> CHR ''/'' \<notin> set ext)"
proof -
  have 1: "save_to_json R E self None = save_to_json R E self (Some (stem @ ''_metadata.json''))"
    unfolding stem_def by (simp add: save_to_json_default default_output_file_def)
  have 2: "\<forall>out sm. written (save_to_json R E self None) = Some (out, sm)
            \<longrightarrow> out = stem @ ''_metadata.json''"
    unfolding 1 using save_to_json_written_path by blast
  have 3: "stem @ ext = image_path self"
    unfolding stem_def ext_def by (rule splitext_append)
  have 4: "ext \<noteq> [] \<longleftrightarrow>
            (\<exists>u v. basename (image_path self) = u @ CHR ''.'' # v \<and> \<not> set u \<subseteq> {CHR ''.''})"
    unfolding ext_def by (rule splitext_ext_iff)
  have 5: "ext \<noteq> [] \<longrightarrow>
            hd ext = CHR ''.'' \<and> CHR ''.'' \<notin> set (tl ext) \<and> CHR ''/'' \<notin> set ext"
    unfolding ext_def using splitext_ext_shape by blast
  show ?thesis using 1 2 3 4 5 by blast
qed

lemma splitext_examples:
  "splitext ''photo.jpg'' = (''photo'', ''.jpg'')"
  "splitext ''/home/user/IMG.0001.HEIC'' = (''/home/user/IMG.0001'', ''.HEIC'')"
  "splitext ''shots.d/scan'' = (''shots.d/scan'', [])"
  "splitext ''.hidden'' = (''.hidden'', [])"
  by code_simp+

lemma json_dumps_ok_text: "json_dumps_ok R (PStr s)"
  by (simp add: json_dumps_ok_def)

text \<open>
  The record of \<open>photo.jpg\<close> is written to \<open>photo_metadata.json\<close>; the other paths show
  a dot inside the name, a dot in a directory name and a leading dot.
\<close>

theorem default_output_strips_extension_witness:
  "written (save_to_json ideal_rt (sample_env (Inr (sample_image (Inr None))))
       \<lparr>image_path = ''photo.jpg'', metadata = [(KStr ''Basic_Info'', PDict [(KStr ''Mode'', PStr ''RGB'')])]\<rparr>
       None)
     = Some (''photo_metadata.json'', [(KStr ''Basic_Info'', PDict [(KStr ''Mode'', PStr ''RGB'')])])
   \<and> default_output_file ''photo.jpg'' = ''photo_metadata.json''
   \<and> default_output_file ''/home/user/IMG.0001.HEIC'' = ''/home/user/IMG.0001_metadata.json''
   \<and> default_output_file ''shots.d/scan'' = ''shots.d/scan_metadata.json''
   \<and> default_output_file ''.hidden'' = ''.hidden_metadata.json''"
proof -
  let ?self = "\<lparr>image_path = ''photo.jpg'',
                 metadata = [(KStr ''Basic_Info'', PDict [(KStr ''Mode'', PStr ''RGB'' :: rat pyval)])]\<rparr>"
  have sm: "serializable_metadata ideal_rt ?self
              = Inr [(KStr ''Basic_Info'', PDict [(KStr ''Mode'', PStr ''RGB'')])]"
    by (simp add: serializable_metadata_def serialize_category_def serialize_field_def
          json_dumps_ok_text)
  have ok: "json_dump_ok ideal_rt (PDict [(KStr ''Basic_Info'', PDict [(KStr ''Mode'', PStr ''RGB'')])])"
    by (simp add: json_dump_ok_def json_key_ok_def ideal_rt_def)
  have w: "written (save_to_json ideal_rt (sample_env (Inr (sample_image (Inr None)))) ?self
             (Some ''photo_metadata.json''))
     = Some (''photo_metadata.json'', [(KStr ''Basic_Info'', PDict [(KStr ''Mode'', PStr ''RGB'')])])"
    by (simp add: save_to_json_def write_json_def sm ok sample_env_def py_print_def Let_def)
  have s: "fst (splitext (image_path ?self)) = ''photo''"
    by (simp add: splitext_examples)
  from default_output_strips_extension [of ideal_rt "sample_env (Inr (sample_image (Inr None)))" ?self,
         THEN conjunct1]
  have "written (save_to_json ideal_rt (sample_env (Inr (sample_image (Inr None)))) ?self None)
     = Some (''photo_metadata.json'', [(KStr ''Basic_Info'', PDict [(KStr ''Mode'', PStr ''RGB'')])])"
    unfolding s using w by simp
  then show ?thesis
    by (simp add: splitext_examples default_output_file_def)
qed

end
